theory Spec2Isabelle
  imports Complex_Main
begin

section \<open>Values and errors\<close>

text \<open>
  A float64 cell as numpy compares it: the three special values and the finite ones.
  Finite values are carried as exact reals; rounding plays no part in the range checks
  and in the special-value arithmetic that the properties below are about.
\<close>

datatype fl = NaN | NInf | Fin real | PInf

text \<open>
  Python exceptions raised by \<open>parse.py\<close> and by the dataframe operations it calls.
  \<open>DtypeError\<close> stands for applying a numeric check to a column of another dtype; the
  parsers read every checked column with the dtype of their \<open>dtype_dict\<close>, so it marks
  frames that \<open>read_csv\<close> would not have produced.
\<close>

datatype error =
    ValueError string
  | KeyError string
  | IndexError
  | IOError string
  | DtypeError

definition bindE :: "error + 'a \<Rightarrow> ('a \<Rightarrow> error + 'b) \<Rightarrow> error + 'b" where
  "bindE m f = (case m of Inl e \<Rightarrow> Inl e | Inr v \<Rightarrow> f v)"

fun isnan :: "fl \<Rightarrow> bool" where
  "isnan NaN = True"
| "isnan _ = False"

text \<open>IEEE comparison: every comparison with NaN is false.\<close>

fun fl_lt :: "fl \<Rightarrow> fl \<Rightarrow> bool" where
  "fl_lt NaN _ = False"
| "fl_lt _ NaN = False"
| "fl_lt _ NInf = False"
| "fl_lt NInf _ = True"
| "fl_lt PInf _ = False"
| "fl_lt (Fin x) (Fin y) = (x < y)"
| "fl_lt (Fin x) PInf = True"

definition fl_eq :: "fl \<Rightarrow> fl \<Rightarrow> bool" where
  "fl_eq a b = (\<not> isnan a \<and> a = b)"

definition fl_le :: "fl \<Rightarrow> fl \<Rightarrow> bool" where
  "fl_le a b = (fl_lt a b \<or> fl_eq a b)"

definition fl_gt :: "fl \<Rightarrow> fl \<Rightarrow> bool" where
  "fl_gt a b = fl_lt b a"

definition fl_ge :: "fl \<Rightarrow> fl \<Rightarrow> bool" where
  "fl_ge a b = fl_le b a"

text \<open>
  \<open>np.max\<close> and \<open>np.min\<close> of a pandas Series delegate to the Series' own reduction,
  which skips NaN and yields NaN when nothing is left (so also on an empty column).
\<close>

definition np_max :: "fl list \<Rightarrow> fl" where
  "np_max xs = (case filter (\<lambda>x. \<not> isnan x) xs of
                  [] \<Rightarrow> NaN
                | y # ys \<Rightarrow> fold (\<lambda>a m. if fl_lt m a then a else m) ys y)"

definition np_min :: "fl list \<Rightarrow> fl" where
  "np_min xs = (case filter (\<lambda>x. \<not> isnan x) xs of
                  [] \<Rightarrow> NaN
                | y # ys \<Rightarrow> fold (\<lambda>a m. if fl_lt a m then a else m) ys y)"

definition np_any :: "bool list \<Rightarrow> bool" where
  "np_any bs = (True \<in> set bs)"

section \<open>Input checking functions\<close>

definition check_dir :: "int list \<Rightarrow> error + unit" where
  "check_dir dir =
     (let c1 = map (\<lambda>d. d \<noteq> 1) dir;
          c2 = map (\<lambda>d. d \<noteq> - 1) dir
      in if np_any (map (\<lambda>(a, b). a \<and> b) (zip c1 c2))
         then Inl (ValueError ''DIR entry not equal to +/- 1.'')
         else Inr ())"

text \<open>
  \<open>rsids.duplicated('SNP')\<close> flags every identifier that occurs again elsewhere in the
  column (the string lands in the flag choosing which occurrence to spare), so \<open>np.any\<close> of
  it holds exactly when the column has a repeated identifier.
\<close>

definition duplicated :: "'a list \<Rightarrow> bool list" where
  "duplicated xs = map (\<lambda>i. xs ! i \<in> set (drop (Suc i) xs)) [0 ..< length xs]"

definition check_rsid :: "string list \<Rightarrow> error + unit" where
  "check_rsid rsids =
     (if np_any (map (\<lambda>s. s = ''.'') rsids)
      then Inl (ValueError ''Some SNP identifiers are set to . (a dot).'')
      else if np_any (duplicated rsids)
      then Inl (ValueError ''Duplicated SNP identifiers.'')
      else Inr ())"

definition check_pvalue :: "fl list \<Rightarrow> error + unit" where
  "check_pvalue P =
     (if np_any (map isnan P) then Inl (ValueError ''Missing P-values'')
      else if fl_gt (np_max P) (Fin 1) then Inl (ValueError ''P-values cannot be > 1.'')
      else if fl_le (np_min P) (Fin 0) then Inl (ValueError ''P values cannot be <= 0'')
      else Inr ())"

definition check_chisq :: "fl list \<Rightarrow> error + unit" where
  "check_chisq chisq =
     (if np_any (map isnan chisq) then Inl (ValueError ''Missing chi-square statistics.'')
      else if fl_eq (np_max chisq) PInf then Inl (ValueError ''Infinite chi-square statistics.'')
      else if fl_lt (np_min chisq) (Fin 0) then Inl (ValueError ''Negative chi-square statistics'')
      else Inr ())"

definition check_maf :: "fl list \<Rightarrow> error + unit" where
  "check_maf maf =
     (if np_any (map isnan maf) then Inl (ValueError ''Missing values in MAF.'')
      else if fl_ge (np_max maf) (Fin 1) then Inl (ValueError ''MAF >= 1.'')
      else if fl_le (np_min maf) (Fin 0) then Inl (ValueError ''MAF <= 0.'')
      else Inr ())"

text \<open>An integer column holds no NaN; its minimum is NaN only when the column is empty.\<close>

definition int_min :: "int list \<Rightarrow> fl" where
  "int_min ns = (case ns of [] \<Rightarrow> NaN | n # rest \<Rightarrow> Fin (of_int (fold min rest n)))"

definition check_N :: "int list \<Rightarrow> error + unit" where
  "check_N N =
     (if fl_lt (int_min N) (Fin 0) then Inl (ValueError ''Negative N.'') else Inr ())"

section \<open>Float arithmetic\<close>

text \<open>IEEE special cases of the operations the parsers use; zero is taken as positive zero.\<close>

fun fl_sub :: "fl \<Rightarrow> fl \<Rightarrow> fl" where
  "fl_sub NaN _ = NaN"
| "fl_sub _ NaN = NaN"
| "fl_sub (Fin x) (Fin y) = Fin (x - y)"
| "fl_sub (Fin x) PInf = NInf"
| "fl_sub (Fin x) NInf = PInf"
| "fl_sub PInf PInf = NaN"
| "fl_sub PInf _ = PInf"
| "fl_sub NInf NInf = NaN"
| "fl_sub NInf _ = NInf"

fun fl_div :: "fl \<Rightarrow> fl \<Rightarrow> fl" where
  "fl_div NaN _ = NaN"
| "fl_div _ NaN = NaN"
| "fl_div (Fin x) (Fin y) =
     (if y = 0 then (if x = 0 then NaN else if 0 < x then PInf else NInf) else Fin (x / y))"
| "fl_div (Fin x) _ = Fin 0"
| "fl_div PInf (Fin y) = (if 0 \<le> y then PInf else NInf)"
| "fl_div NInf (Fin y) = (if 0 \<le> y then NInf else PInf)"
| "fl_div _ _ = NaN"

fun fl_mul :: "fl \<Rightarrow> fl \<Rightarrow> fl" where
  "fl_mul NaN _ = NaN"
| "fl_mul _ NaN = NaN"
| "fl_mul (Fin x) (Fin y) = Fin (x * y)"
| "fl_mul (Fin x) PInf = (if x = 0 then NaN else if 0 < x then PInf else NInf)"
| "fl_mul (Fin x) NInf = (if x = 0 then NaN else if 0 < x then NInf else PInf)"
| "fl_mul PInf (Fin y) = (if y = 0 then NaN else if 0 < y then PInf else NInf)"
| "fl_mul NInf (Fin y) = (if y = 0 then NaN else if 0 < y then NInf else PInf)"
| "fl_mul PInf PInf = PInf"
| "fl_mul PInf NInf = NInf"
| "fl_mul NInf PInf = NInf"
| "fl_mul NInf NInf = PInf"

fun fl_sqrt :: "fl \<Rightarrow> fl" where
  "fl_sqrt NaN = NaN"
| "fl_sqrt NInf = NaN"
| "fl_sqrt PInf = PInf"
| "fl_sqrt (Fin x) = (if x < 0 then NaN else Fin (sqrt x))"

text \<open>\<open>np.fmin\<close>: the smaller of two values, ignoring a NaN when the other is a number.\<close>

definition fl_fmin :: "fl \<Rightarrow> fl \<Rightarrow> fl" where
  "fl_fmin a b = (if isnan a then b else if isnan b then a else if fl_lt b a then b else a)"

definition isfinite :: "fl \<Rightarrow> bool" where
  "isfinite a = (case a of Fin _ \<Rightarrow> True | _ \<Rightarrow> False)"

definition float_of_int :: "int \<Rightarrow> fl" where
  "float_of_int n = Fin (of_int n)"

section \<open>Data frames\<close>

text \<open>
  A DataFrame is the ordered list of its named columns (a rename can leave two columns
  with one name); a column has one dtype.
\<close>

datatype column = StrCol "string list" | IntCol "int list" | FltCol "fl list"

type_synonym frame = "(string \<times> column) list"

definition columns :: "frame \<Rightarrow> string list" where
  "columns x = map fst x"


definition getitem :: "frame \<Rightarrow> string \<Rightarrow> error + column" where
  "getitem x k = (case map_of x k of None \<Rightarrow> Inl (KeyError k) | Some c \<Rightarrow> Inr c)"

text \<open>\<open>x[k] = c\<close> overwrites the column named \<open>k\<close> in place, or appends a new last column.\<close>

definition setitem :: "frame \<Rightarrow> string \<Rightarrow> column \<Rightarrow> frame" where
  "setitem x k c =
     (if k \<in> set (columns x) then map (\<lambda>(n, c'). if n = k then (n, c) else (n, c')) x
      else x @ [(k, c)])"

definition rename :: "frame \<Rightarrow> string \<Rightarrow> string \<Rightarrow> frame" where
  "rename x old new = map (\<lambda>(n, c). (if n = old then new else n, c)) x"

definition delitem :: "frame \<Rightarrow> string \<Rightarrow> error + frame" where
  "delitem x k =
     (if k \<in> set (columns x) then Inr (filter (\<lambda>(n, c). n \<noteq> k) x) else Inl (KeyError k))"

fun as_str :: "column \<Rightarrow> error + string list" where
  "as_str (StrCol xs) = Inr xs"
| "as_str _ = Inl DtypeError"

fun as_int :: "column \<Rightarrow> error + int list" where
  "as_int (IntCol xs) = Inr xs"
| "as_int _ = Inl DtypeError"

fun as_flt :: "column \<Rightarrow> error + fl list" where
  "as_flt (FltCol xs) = Inr xs"
| "as_flt (IntCol xs) = Inr (map float_of_int xs)"
| "as_flt (StrCol xs) = Inl DtypeError"

definition get_str :: "frame \<Rightarrow> string \<Rightarrow> error + string list" where
  "get_str x k = bindE (getitem x k) as_str"

definition get_int :: "frame \<Rightarrow> string \<Rightarrow> error + int list" where
  "get_int x k = bindE (getitem x k) as_int"

definition get_flt :: "frame \<Rightarrow> string \<Rightarrow> error + fl list" where
  "get_flt x k = bindE (getitem x k) as_flt"

text \<open>
  \<open>pd.read_csv(fh, usecols=usecols, dtype=dtype_dict)\<close> on the parsed content \<open>fh\<close> of a
  file: the columns named in \<open>usecols\<close>, in the order of the file.
\<close>

definition read_csv :: "frame \<Rightarrow> string list \<Rightarrow> frame" where
  "read_csv fh usecols = filter (\<lambda>(n, c). n \<in> set usecols) fh"


text \<open>Elementwise operations on columns of one frame.\<close>

definition fold_maf :: "fl list \<Rightarrow> fl list" where
  "fold_maf maf = map (\<lambda>(a, b). fl_fmin a b) (zip maf (map (fl_sub (Fin 1)) maf))"

definition betahat_col :: "fl list \<Rightarrow> fl list \<Rightarrow> int list \<Rightarrow> fl list" where
  "betahat_col chisq N dir =
     map (\<lambda>(q, d). fl_mul (fl_sqrt q) (float_of_int d))
       (zip (map (\<lambda>(c, n). fl_div c n) (zip chisq N)) dir)"

section \<open>Parsers\<close>

definition chisq_usecols :: "string list" where
  "chisq_usecols = [''SNP'', ''P'', ''CHISQ'', ''N'', ''MAF'', ''INFO'']"

definition betaprod_usecols :: "string list" where
  "betaprod_usecols =
     concat (map (\<lambda>i. map (\<lambda>x. x @ i) [''DIR'', ''P'', ''CHISQ'', ''N'', ''MAF'', ''INFO''])
               [''1'', ''2''])
     @ [''SNP'']"

text \<open>
  \<open>chdtri1\<close> is \<open>scipy.special.chdtri(1, \<cdot>)\<close>, the inverse chi-square survival function
  with one degree of freedom; the parsers are modelled for any such function.
\<close>

definition chisq :: "(fl \<Rightarrow> fl) \<Rightarrow> frame \<Rightarrow> error + frame" where
  "chisq chdtri1 fh =
     (let x = read_csv fh chisq_usecols
      in bindE (get_int x ''N'') (\<lambda>N. bindE (check_N N) (\<lambda>_.
         let x = setitem x ''N'' (FltCol (map float_of_int N))
         in bindE (get_str x ''SNP'') (\<lambda>snp. bindE (check_rsid snp) (\<lambda>_.
            bindE (if ''MAF'' \<in> set (columns x)
                   then bindE (get_flt x ''MAF'') (\<lambda>maf. bindE (check_maf maf) (\<lambda>_.
                          Inr (setitem x ''MAF'' (FltCol (fold_maf maf)))))
                   else Inr x) (\<lambda>x.
            if ''P'' \<in> set (columns x)
            then bindE (get_flt x ''P'') (\<lambda>P. bindE (check_pvalue P) (\<lambda>_.
                   Inr (rename (setitem x ''P'' (FltCol (map chdtri1 P))) ''P'' ''CHISQ'')))
            else if ''CHISQ'' \<in> set (columns x)
            then bindE (get_flt x ''CHISQ'') (\<lambda>c. bindE (check_chisq c) (\<lambda>_. Inr x))
            else Inl (ValueError
                   ''.chisq file must have a column labeled either P or CHISQ.'')))))))"

text \<open>
  One pass of the loop of \<open>betaprod\<close> over the phenotype suffix \<open>i\<close>, in the three
  blocks of the loop body: the checks of N and DIR, the \<open>if CHISQ / elif P / else\<close> block
  that writes the effect sizes, and the block that deletes DIR and treats MAF.
\<close>

definition betahat_block :: "(fl \<Rightarrow> fl) \<Rightarrow> string \<Rightarrow> int list \<Rightarrow> frame \<Rightarrow> error + frame" where
  "betahat_block chdtri1 i dir x =
     (let N = ''N'' @ i; P = ''P'' @ i; CHISQ = ''CHISQ'' @ i; BETAHAT = ''BETAHAT'' @ i
      in if CHISQ \<in> set (columns x)
         then bindE (get_flt x CHISQ) (\<lambda>c. bindE (check_chisq c) (\<lambda>_.
              bindE (get_flt x N) (\<lambda>nf.
                Inr (rename (setitem x CHISQ (FltCol (betahat_col c nf dir))) CHISQ BETAHAT))))
         else if P \<in> set (columns x)
         then bindE (get_flt x P) (\<lambda>p. bindE (check_pvalue p) (\<lambda>_.
              bindE (get_flt x N) (\<lambda>nf.
                Inr (rename (setitem x P (FltCol (betahat_col (map chdtri1 p) nf dir)))
                       P BETAHAT))))
         else Inl (ValueError (''No column named P'' @ i @ '' or CHISQ'' @ i
                                @ '' in betaprod.'')))"

text \<open>
  The last block calls \<open>np.min(x[MAF], 1-x[MAF])\<close>: the second positional argument of
  \<open>np.min\<close> is the axis, so the library receives a column where it expects an axis.
  Depending on its version it either ignores the axis and returns the scalar minimum of
  the column, or rejects the axis and raises; \<open>amin_axis\<close> is that library call, and the
  scalar it returns is assigned to every row of the column.
\<close>

definition maf_block ::
  "(fl list \<Rightarrow> fl list \<Rightarrow> error + fl) \<Rightarrow> string \<Rightarrow> frame \<Rightarrow> error + frame" where
  "maf_block amin_axis i x =
     (let MAF = ''MAF'' @ i
      in if MAF \<in> set (columns x)
         then bindE (get_flt x MAF) (\<lambda>maf. bindE (check_maf maf) (\<lambda>_.
              bindE (amin_axis maf (map (fl_sub (Fin 1)) maf)) (\<lambda>m.
                Inr (setitem x MAF (FltCol (replicate (length maf) m))))))
         else Inr x)"

definition betaprod_iter ::
  "(fl \<Rightarrow> fl) \<Rightarrow> (fl list \<Rightarrow> fl list \<Rightarrow> error + fl) \<Rightarrow> string \<Rightarrow> frame \<Rightarrow> error + frame" where
  "betaprod_iter chdtri1 amin_axis i x =
     (let N = ''N'' @ i; DIR = ''DIR'' @ i
      in bindE (get_int x N) (\<lambda>n. bindE (check_N n) (\<lambda>_.
         let x = setitem x N (FltCol (map float_of_int n))
         in bindE (get_int x DIR) (\<lambda>dir. bindE (check_dir dir) (\<lambda>_.
            bindE (betahat_block chdtri1 i dir x) (\<lambda>x.
            bindE (delitem x DIR) (\<lambda>x.
            maf_block amin_axis i x)))))))"

fun for_each :: "('k \<Rightarrow> 's \<Rightarrow> error + 's) \<Rightarrow> 'k list \<Rightarrow> 's \<Rightarrow> error + 's" where
  "for_each body [] x = Inr x"
| "for_each body (i # is) x = bindE (body i x) (for_each body is)"

definition betaprod ::
  "(fl \<Rightarrow> fl) \<Rightarrow> (fl list \<Rightarrow> fl list \<Rightarrow> error + fl) \<Rightarrow> frame \<Rightarrow> error + frame" where
  "betaprod chdtri1 amin_axis fh =
     (let x = read_csv fh betaprod_usecols
      in bindE (get_str x ''SNP'') (\<lambda>snp. bindE (check_rsid snp) (\<lambda>_.
         for_each (betaprod_iter chdtri1 amin_axis) [''1'', ''2''] x)))"

section \<open>The ldscore parser\<close>

text \<open>Python's \<open>str(i)\<close> for a non-negative integer.\<close>

fun str_nat :: "nat \<Rightarrow> string" where
  "str_nat n = (if n < 10 then [''0123456789'' ! n]
                else str_nat (n div 10) @ [''0123456789'' ! (n mod 10)])"

text \<open>\<open>df.drop(labels, axis=1)\<close> raises unless every label names a column.\<close>

definition drop_cols :: "frame \<Rightarrow> string list \<Rightarrow> error + frame" where
  "drop_cols x labels =
     (if list_all (\<lambda>l. l \<in> set (columns x)) labels
      then Inr (filter (\<lambda>(n, c). n \<notin> set labels) x)
      else Inl (ValueError ''labels not contained in axis''))"

text \<open>
  \<open>files\<close> gives, for a path, the table that \<open>pd.read_csv(path, header=0,
  delim_whitespace=True)\<close> reads there, if the file exists.
\<close>

definition parsefunc :: "(string \<Rightarrow> frame option) \<Rightarrow> string \<Rightarrow> error + frame" where
  "parsefunc files y =
     (case files y of
        None \<Rightarrow> Inl (IOError y)
      | Some f \<Rightarrow> drop_cols f [''CHR'', ''BP'', ''CM'', ''MAF''])"

text \<open>\<open>x[ii]\<close> with a boolean column \<open>ii\<close>: the rows where \<open>ii\<close> is true, in every column.\<close>

definition mask_list :: "bool list \<Rightarrow> 'a list \<Rightarrow> 'a list" where
  "mask_list ii xs = map snd (filter fst (zip ii xs))"

fun mask_col :: "bool list \<Rightarrow> column \<Rightarrow> column" where
  "mask_col ii (StrCol xs) = StrCol (mask_list ii xs)"
| "mask_col ii (IntCol xs) = IntCol (mask_list ii xs)"
| "mask_col ii (FltCol xs) = FltCol (mask_list ii xs)"

definition mask_rows :: "bool list \<Rightarrow> frame \<Rightarrow> frame" where
  "mask_rows ii x = map (\<lambda>(n, c). (n, mask_col ii c)) x"

text \<open>
  \<open>astype(float)\<close> on a column; on strings it goes through Python's \<open>float\<close>, here
  \<open>py_float\<close>, and raises at a string that is no number.
\<close>

fun astype_float :: "(string \<Rightarrow> fl option) \<Rightarrow> column \<Rightarrow> error + column" where
  "astype_float py_float (FltCol xs) = Inr (FltCol xs)"
| "astype_float py_float (IntCol xs) = Inr (FltCol (map float_of_int xs))"
| "astype_float py_float (StrCol xs) =
     (case those (map py_float xs) of
        None \<Rightarrow> Inl (ValueError ''could not convert string to float'')
      | Some fs \<Rightarrow> Inr (FltCol fs))"

fun mapE :: "('a \<Rightarrow> error + 'b) \<Rightarrow> 'a list \<Rightarrow> error + 'b list" where
  "mapE f [] = Inr []"
| "mapE f (x # xs) = bindE (f x) (\<lambda>y. bindE (mapE f xs) (\<lambda>ys. Inr (y # ys)))"

text \<open>\<open>x.ix[:,1:len(x.columns)] = x.ix[:,1:len(x.columns)].astype(float)\<close>\<close>

definition convert_tail :: "(string \<Rightarrow> fl option) \<Rightarrow> frame \<Rightarrow> error + frame" where
  "convert_tail py_float x =
     (case x of
        [] \<Rightarrow> Inr []
      | c0 # rest \<Rightarrow>
          bindE (mapE (\<lambda>(n, c). bindE (astype_float py_float c) (\<lambda>c'. Inr (n, c'))) rest)
            (\<lambda>rest'. Inr (c0 # rest')))"

text \<open>
  The table of an .l2.ldscore file is read without a dtype, so its SNP column is a
  string column when some identifier is not a number and a numeric column otherwise.
  \<open>ne_dot\<close> and \<open>eq_dot\<close> are the comparisons \<open>!= '.'\<close> and \<open>== '.'\<close> on such a
  column (a number never equals the string), and \<open>check_rsid_col\<close> is \<open>check_rsid\<close> on it.
\<close>

fun ne_dot :: "column \<Rightarrow> bool list" where
  "ne_dot (StrCol xs) = map (\<lambda>s. s \<noteq> ''.'') xs"
| "ne_dot (IntCol xs) = map (\<lambda>_. True) xs"
| "ne_dot (FltCol xs) = map (\<lambda>_. True) xs"

fun eq_dot :: "column \<Rightarrow> bool list" where
  "eq_dot (StrCol xs) = map (\<lambda>s. s = ''.'') xs"
| "eq_dot (IntCol xs) = map (\<lambda>_. False) xs"
| "eq_dot (FltCol xs) = map (\<lambda>_. False) xs"

fun duplicated_col :: "column \<Rightarrow> bool list" where
  "duplicated_col (StrCol xs) = duplicated xs"
| "duplicated_col (IntCol xs) = duplicated xs"
| "duplicated_col (FltCol xs) = duplicated xs"

definition check_rsid_col :: "column \<Rightarrow> error + unit" where
  "check_rsid_col rsids =
     (if np_any (eq_dot rsids)
      then Inl (ValueError ''Some SNP identifiers are set to . (a dot).'')
      else if np_any (duplicated_col rsids)
      then Inl (ValueError ''Duplicated SNP identifiers.'')
      else Inr ())"

text \<open>\<open>pd_concat\<close> is \<open>pd.concat\<close> on the list of per-chromosome tables.\<close>

definition ldscore ::
  "(string \<Rightarrow> frame option) \<Rightarrow> (frame list \<Rightarrow> error + frame) \<Rightarrow> (string \<Rightarrow> fl option)
     \<Rightarrow> string \<Rightarrow> int option \<Rightarrow> error + frame" where
  "ldscore files pd_concat py_float fh num =
     bindE (case num of
              Some k \<Rightarrow>
                bindE (mapE (\<lambda>i. parsefunc files (fh @ str_nat (nat i) @ ''.l2.ldscore''))
                         [1..k]) pd_concat
            | None \<Rightarrow> parsefunc files (fh @ ''.l2.ldscore'')) (\<lambda>x.
     bindE (getitem x ''SNP'') (\<lambda>snp.
     let ii = ne_dot snp;
         x = mask_rows ii x
     in bindE (getitem x ''SNP'') (\<lambda>snp. bindE (check_rsid_col snp) (\<lambda>_.
        convert_tail py_float x))))"

section \<open>Identifier lists and the left join\<close>

text \<open>
  Cells of the tables that \<open>loj\<close> handles: identifiers as read from a file, the boolean
  that \<open>loj\<close> writes, and the missing value that a merge fills in.
\<close>

datatype cell = CStr string | CInt int | CBool bool | CNaN

type_synonym oframe = "(string \<times> cell list) list"

text \<open>Python equality makes \<open>True\<close> equal to 1 and \<open>False\<close> equal to 0.\<close>

fun as_key :: "cell \<Rightarrow> cell" where
  "as_key (CBool b) = CInt (if b then 1 else 0)"
| "as_key c = c"

text \<open>Elementwise \<open>==\<close> (a missing value equals nothing) and the matching of join keys.\<close>

definition cell_eq :: "cell \<Rightarrow> cell \<Rightarrow> bool" where
  "cell_eq a b = (a \<noteq> CNaN \<and> as_key a = as_key b)"

definition key_match :: "cell \<Rightarrow> cell \<Rightarrow> bool" where
  "key_match a b = (as_key a = as_key b)"

definition ocolumns :: "oframe \<Rightarrow> string list" where
  "ocolumns x = map fst x"

definition nrows :: "oframe \<Rightarrow> nat" where
  "nrows x = (case x of [] \<Rightarrow> 0 | (n, c) # _ \<Rightarrow> length c)"

definition ogetitem :: "oframe \<Rightarrow> string \<Rightarrow> error + cell list" where
  "ogetitem x k = (case map_of x k of None \<Rightarrow> Inl (KeyError k) | Some c \<Rightarrow> Inr c)"

definition osetitem :: "oframe \<Rightarrow> string \<Rightarrow> cell list \<Rightarrow> oframe" where
  "osetitem x k c =
     (if k \<in> set (ocolumns x) then map (\<lambda>(n, c'). if n = k then (n, c) else (n, c')) x
      else x @ [(k, c)])"

text \<open>\<open>df.columns[0]\<close> and \<open>df.iloc[:,[0]]\<close>; the latter is a new table.\<close>

definition first_column :: "oframe \<Rightarrow> error + string" where
  "first_column x = (case x of [] \<Rightarrow> Inl IndexError | (n, c) # _ \<Rightarrow> Inr n)"

definition iloc_first :: "oframe \<Rightarrow> error + oframe" where
  "iloc_first x = (case x of [] \<Rightarrow> Inl IndexError | nc # _ \<Rightarrow> Inr [nc])"

text \<open>
  \<open>pd.merge(left, right, how='left', left_on=l, right_on=r, sort=False)\<close>: every row of
  \<open>left\<close>, in order, once for each row of \<open>right\<close> with a matching key, or once with
  missing values when there is none. A key column with the same name on both sides
  appears once; any other name that occurs on both sides gets the suffixes \<open>_x\<close> and
  \<open>_y\<close>.
\<close>

definition join_rows :: "cell list \<Rightarrow> cell list \<Rightarrow> (nat \<times> nat option) list" where
  "join_rows lk rk =
     concat (map (\<lambda>i. case filter (\<lambda>j. key_match (lk ! i) (rk ! j)) [0 ..< length rk] of
                          [] \<Rightarrow> [(i, None)]
                        | js \<Rightarrow> map (\<lambda>j. (i, Some j)) js)
               [0 ..< length lk])"

text \<open>The first row of the right table whose key matches, if there is one.\<close>

definition match_of :: "cell list \<Rightarrow> cell \<Rightarrow> nat option" where
  "match_of keys a =
     (case filter (\<lambda>j. key_match a (keys ! j)) [0 ..< length keys] of
        [] \<Rightarrow> None | j # _ \<Rightarrow> Some j)"

definition merge_left :: "oframe \<Rightarrow> oframe \<Rightarrow> string \<Rightarrow> string \<Rightarrow> error + oframe" where
  "merge_left left right l r =
     bindE (ogetitem left l) (\<lambda>lk. bindE (ogetitem right r) (\<lambda>rk.
       let rows = join_rows lk rk;
           lcols = map (\<lambda>(n, c). (n, map (\<lambda>(i, j). c ! i) rows)) left;
           rcols = map (\<lambda>(n, c). (n, map (\<lambda>(i, j). case j of None \<Rightarrow> CNaN
                                                     | Some j \<Rightarrow> c ! j) rows))
                     (if l = r then filter (\<lambda>(n, c). n \<noteq> r) right else right);
           shared = filter (\<lambda>n. n \<in> set (map fst rcols)) (map fst lcols)
       in Inr (map (\<lambda>(n, c). (if n \<in> set shared then n @ ''_x'' else n, c)) lcols
               @ map (\<lambda>(n, c). (if n \<in> set shared then n @ ''_y'' else n, c)) rcols)))"

definition nonzero :: "bool list \<Rightarrow> nat list" where
  "nonzero bs = filter (\<lambda>i. bs ! i) [0 ..< length bs]"

text \<open>
  Tables are objects: an address is a position in the store, and a new table is put at
  the end of it. An \<open>IDContainer\<close> holds the addresses of its tables.
\<close>

type_synonym store = "oframe list"

definition alloc :: "store \<Rightarrow> oframe \<Rightarrow> nat \<times> store" where
  "alloc h x = (length h, h @ [x])"

record IDContainer =
  c_df :: nat
  c_IDList :: nat
  c_n :: nat

text \<open>\<open>loj\<close> returns its result, or the exception, together with the store it leaves.\<close>

definition loj :: "store \<Rightarrow> IDContainer \<Rightarrow> nat \<Rightarrow> (error + nat list) \<times> store" where
  "loj h self externalDf =
     (case first_column (h ! externalDf) of Inl e \<Rightarrow> (Inl e, h) | Inr r \<Rightarrow>
      case first_column (h ! c_IDList self) of Inl e \<Rightarrow> (Inl e, h) | Inr l \<Rightarrow>
      case iloc_first (h ! externalDf) of Inl e \<Rightarrow> (Inl e, h) | Inr m \<Rightarrow>
        let (merge_df, h1) = alloc h m;
            h2 = h1[merge_df := osetitem (h1 ! merge_df) ''keep''
                                   (replicate (nrows (h1 ! merge_df)) (CBool True))]
        in case merge_left (h2 ! c_IDList self) (h2 ! merge_df) l r of
             Inl e \<Rightarrow> (Inl e, h2)
           | Inr zf \<Rightarrow>
               let (z, h3) = alloc h2 zf
               in case ogetitem (h3 ! z) ''keep'' of
                    Inl e \<Rightarrow> (Inl e, h3)
                  | Inr keep \<Rightarrow> (Inr (nonzero (map (\<lambda>c. cell_eq c (CBool True)) keep)), h3))"

section \<open>Library behaviours and sample files\<close>

text \<open>
  The two behaviours of \<open>np.min(column, axis=column)\<close> met in practice: the axis is
  ignored and the scalar minimum comes back, or the axis is rejected.
\<close>

definition amin_ignoring_axis :: "fl list \<Rightarrow> fl list \<Rightarrow> error + fl" where
  "amin_ignoring_axis a axis = Inr (np_min a)"

definition amin_rejecting_axis :: "fl list \<Rightarrow> fl list \<Rightarrow> error + fl" where
  "amin_rejecting_axis a axis = Inl (ValueError ''No axis named for object type Series'')"

text \<open>
  The theorems hold for every \<open>chdtri1\<close>; where a concrete run is shown, this decreasing
  function with value 0 at 1 stands in its place.
\<close>

definition chdtri1_sample :: "fl \<Rightarrow> fl" where
  "chdtri1_sample p = fl_sub (Fin 1) p"

definition chisq_file_ex :: frame where
  "chisq_file_ex =
     [(''SNP'', StrCol [''rs1'', ''rs2'']),
      (''N'', IntCol [100, 200]),
      (''P'', FltCol [Fin (1/2), Fin 1]),
      (''MAF'', FltCol [Fin (1/10), Fin (7/10)])]"

definition chisq_out_ex :: frame where
  "chisq_out_ex =
     [(''SNP'', StrCol [''rs1'', ''rs2'']),
      (''N'', FltCol [Fin 100, Fin 200]),
      (''CHISQ'', FltCol [Fin (1/2), Fin 0]),
      (''MAF'', FltCol [Fin (1/10), Fin (3/10)])]"

definition betaprod_file_ex :: frame where
  "betaprod_file_ex =
     [(''SNP'', StrCol [''rs1'', ''rs2'']),
      (''N1'', IntCol [4, 1]), (''DIR1'', IntCol [1, - 1]), (''CHISQ1'', FltCol [Fin 0, Fin 1]),
      (''N2'', IntCol [1, 0]), (''DIR2'', IntCol [- 1, 1]), (''P2'', FltCol [Fin 1, Fin (1/2)])]"

definition betaprod_out_ex :: frame where
  "betaprod_out_ex =
     [(''SNP'', StrCol [''rs1'', ''rs2'']),
      (''N1'', FltCol [Fin 4, Fin 1]), (''BETAHAT1'', FltCol [Fin 0, Fin (- 1)]),
      (''N2'', FltCol [Fin 1, Fin 0]), (''BETAHAT2'', FltCol [Fin 0, PInf])]"

definition bad_dir_frame_ex :: frame where
  "bad_dir_frame_ex = [(''N1'', IntCol [10, 20]), (''DIR1'', IntCol [1, 0])]"

text \<open>Files that carry both a p-value column and a chi-square column.\<close>

definition chisq_both_ex :: frame where
  "chisq_both_ex =
     [(''SNP'', StrCol [''rs1'']), (''N'', IntCol [10]),
      (''CHISQ'', FltCol [Fin (- 5)]), (''P'', FltCol [Fin (1/2)])]"

definition chisq_both_out_ex :: frame where
  "chisq_both_out_ex =
     [(''SNP'', StrCol [''rs1'']), (''N'', FltCol [Fin 10]),
      (''CHISQ'', FltCol [Fin (- 5)]), (''CHISQ'', FltCol [Fin (1/2)])]"

definition betaprod_both_ex :: frame where
  "betaprod_both_ex =
     [(''SNP'', StrCol [''rs1'']),
      (''N1'', IntCol [1]), (''DIR1'', IntCol [- 1]), (''CHISQ1'', FltCol [Fin 1]),
      (''P1'', FltCol [Fin 7]),
      (''N2'', IntCol [1]), (''DIR2'', IntCol [1]), (''CHISQ2'', FltCol [Fin 0]),
      (''P2'', FltCol [NaN])]"

definition betaprod_both_out_ex :: frame where
  "betaprod_both_out_ex =
     [(''SNP'', StrCol [''rs1'']),
      (''N1'', FltCol [Fin 1]), (''BETAHAT1'', FltCol [Fin (- 1)]), (''P1'', FltCol [Fin 7]),
      (''N2'', FltCol [Fin 1]), (''BETAHAT2'', FltCol [Fin 0]), (''P2'', FltCol [NaN])]"

text \<open>A betaprod file with a MAF column for the first phenotype.\<close>

definition betaprod_maf_ex :: frame where
  "betaprod_maf_ex =
     [(''SNP'', StrCol [''rs1'', ''rs2'']),
      (''N1'', IntCol [10, 10]), (''DIR1'', IntCol [1, - 1]), (''CHISQ1'', FltCol [Fin 0, Fin 0]),
      (''MAF1'', FltCol [Fin (1/10), Fin (7/10)]),
      (''N2'', IntCol [10, 10]), (''DIR2'', IntCol [1, 1]), (''CHISQ2'', FltCol [Fin 0, Fin 0])]"

definition betaprod_maf_out_ex :: frame where
  "betaprod_maf_out_ex =
     [(''SNP'', StrCol [''rs1'', ''rs2'']),
      (''N1'', FltCol [Fin 10, Fin 10]), (''BETAHAT1'', FltCol [Fin 0, Fin 0]),
      (''MAF1'', FltCol [Fin (1/10), Fin (1/10)]),
      (''N2'', FltCol [Fin 10, Fin 10]), (''BETAHAT2'', FltCol [Fin 0, Fin 0])]"

text \<open>
  An .l2.ldscore file with a row whose identifier is a dot, a file system that holds it,
  and stand-ins for the two library functions: \<open>pd.concat\<close> on tables with the same
  columns and dtypes (pandas aligns tables whose columns differ and fills in missing
  values; that case is left out here and no run below meets it), and a fragment of
  Python's \<open>float\<close>.
\<close>

definition ldscore_file_ex :: frame where
  "ldscore_file_ex =
     [(''CHR'', IntCol [1, 1, 1]), (''SNP'', StrCol [''.'', ''rs1'', ''rs2'']),
      (''BP'', IntCol [100, 200, 300]), (''CM'', FltCol [Fin 0, Fin 0, Fin 0]),
      (''MAF'', FltCol [Fin (1/10), Fin (1/5), Fin (3/10)]), (''L2'', IntCol [1, 2, 3])]"

text \<open>An .l2.ldscore file whose identifiers are numbers, read as an integer column.\<close>

definition ldscore_numeric_ex :: frame where
  "ldscore_numeric_ex =
     [(''CHR'', IntCol [1, 1]), (''SNP'', IntCol [11, 12]),
      (''BP'', IntCol [100, 200]), (''CM'', FltCol [Fin 0, Fin 0]),
      (''MAF'', FltCol [Fin (1/10), Fin (1/5)]), (''L2'', IntCol [4, 5])]"

definition ldscore_numeric_out_ex :: frame where
  "ldscore_numeric_out_ex = [(''SNP'', IntCol [11, 12]), (''L2'', FltCol [Fin 4, Fin 5])]"

definition ldscore_files_ex :: "string \<Rightarrow> frame option" where
  "ldscore_files_ex path =
     (if path = ''f.l2.ldscore'' then Some ldscore_file_ex
      else if path = ''g.l2.ldscore'' then Some ldscore_numeric_ex
      else None)"


fun col_append :: "column \<Rightarrow> column \<Rightarrow> error + column" where
  "col_append (StrCol xs) (StrCol ys) = Inr (StrCol (xs @ ys))"
| "col_append (IntCol xs) (IntCol ys) = Inr (IntCol (xs @ ys))"
| "col_append (FltCol xs) (FltCol ys) = Inr (FltCol (xs @ ys))"
| "col_append _ _ = Inl DtypeError"

fun rows_append :: "frame \<Rightarrow> frame \<Rightarrow> error + frame" where
  "rows_append [] [] = Inr []"
| "rows_append ((n, c) # x) ((n', c') # y) =
     (if n = n'
      then bindE (col_append c c') (\<lambda>c''. bindE (rows_append x y) (\<lambda>z. Inr ((n, c'') # z)))
      else Inl DtypeError)"
| "rows_append _ _ = Inl DtypeError"

fun pd_concat_sample :: "frame list \<Rightarrow> error + frame" where
  "pd_concat_sample [] = Inl (ValueError ''No objects to concatenate'')"
| "pd_concat_sample [x] = Inr x"
| "pd_concat_sample (x # y # xs) = bindE (rows_append x y) (\<lambda>z. pd_concat_sample (z # xs))"

definition py_float_sample :: "string \<Rightarrow> fl option" where
  "py_float_sample s = (if s = ''1.5'' then Some (Fin (3/2)) else if s = ''2'' then Some (Fin 2)
                        else None)"

text \<open>A store with an identifier list and two external tables.\<close>

definition store_ex :: store where
  "store_ex =
     [[(''SNP'', [CStr ''rs1'', CStr ''rs3'', CStr ''rs2''])],
      [(''ID'', [CStr ''rs2'', CStr ''rs1'']), (''VAL'', [CInt 7, CInt 8])],
      [(''keep'', [CStr ''rs2'', CStr ''rs1'']), (''VAL'', [CInt 7, CInt 8])]]"

definition self_ex :: IDContainer where
  "self_ex = \<lparr>c_df = 0, c_IDList = 0, c_n = 3\<rparr>"



section \<open>Facts about the reductions\<close>

lemma fl_lt_trans: "fl_lt a b \<Longrightarrow> fl_lt b c \<Longrightarrow> fl_lt a c"
  by (cases a; cases b; cases c) auto

lemma fl_lt_total: "\<not> isnan a \<Longrightarrow> \<not> isnan b \<Longrightarrow> fl_lt a b \<or> a = b \<or> fl_lt b a"
  by (cases a; cases b) auto

lemma fl_lt_irrefl: "\<not> fl_lt a a"
  by (cases a) auto

lemma fl_lt_asym: "fl_lt a b \<Longrightarrow> \<not> fl_lt b a"
  by (cases a; cases b) auto

lemma fold_max_nan: "\<not> isnan y \<Longrightarrow> \<forall>x \<in> set ys. \<not> isnan x \<Longrightarrow>
    \<not> isnan (fold (\<lambda>a m. if fl_lt m a then a else m) ys y)"
  by (induction ys arbitrary: y) auto

lemma fold_min_nan: "\<not> isnan y \<Longrightarrow> \<forall>x \<in> set ys. \<not> isnan x \<Longrightarrow>
    \<not> isnan (fold (\<lambda>a m. if fl_lt a m then a else m) ys y)"
  by (induction ys arbitrary: y) auto

lemma fold_max_mem: "fold (\<lambda>a m. if fl_lt m a then a else m) ys y \<in> set (y # ys)"
proof (induction ys arbitrary: y)
  case Nil
  then show ?case by simp
next
  case (Cons z zs)
  show ?case using Cons.IH [of "if fl_lt y z then z else y"] by (auto split: if_splits)
qed

lemma fold_min_mem: "fold (\<lambda>a m. if fl_lt a m then a else m) ys y \<in> set (y # ys)"
proof (induction ys arbitrary: y)
  case Nil
  then show ?case by simp
next
  case (Cons z zs)
  show ?case using Cons.IH [of "if fl_lt z y then z else y"] by (auto split: if_splits)
qed

lemma fold_max_ub: "\<not> isnan y \<Longrightarrow> \<forall>x \<in> set ys. \<not> isnan x \<Longrightarrow> x \<in> set (y # ys) \<Longrightarrow>
    \<not> fl_lt (fold (\<lambda>a m. if fl_lt m a then a else m) ys y) x"
proof (induction ys arbitrary: y x)
  case Nil
  then show ?case by (simp add: fl_lt_irrefl)
next
  case (Cons z zs)
  have nz: "\<not> isnan z" and zs: "\<forall>x \<in> set zs. \<not> isnan x" and ny: "\<not> isnan y"
    using Cons.prems by auto
  show ?case
  proof (cases "fl_lt y z")
    case True
    have a: "\<And>w. w \<in> set (z # zs) \<Longrightarrow> \<not> fl_lt (fold (\<lambda>a m. if fl_lt m a then a else m) zs z) w"
      using Cons.IH [OF nz zs] by blast
    have "\<not> fl_lt (fold (\<lambda>a m. if fl_lt m a then a else m) zs z) x"
    proof (cases "x = y")
      case False
      then show ?thesis using a [of x] Cons.prems(3) by auto
    next
      case xy: True
      have "\<not> fl_lt (fold (\<lambda>a m. if fl_lt m a then a else m) zs z) z" using a [of z] by simp
      then show ?thesis using True xy fl_lt_trans by blast
    qed
    then show ?thesis using True by simp
  next
    case False
    have a: "\<And>w. w \<in> set (y # zs) \<Longrightarrow> \<not> fl_lt (fold (\<lambda>a m. if fl_lt m a then a else m) zs y) w"
      using Cons.IH [OF ny zs] by blast
    have "\<not> fl_lt (fold (\<lambda>a m. if fl_lt m a then a else m) zs y) x"
    proof (cases "x = z")
      case False
      then show ?thesis using a [of x] Cons.prems(3) by auto
    next
      case xz: True
      have b: "\<not> fl_lt (fold (\<lambda>a m. if fl_lt m a then a else m) zs y) y" using a [of y] by simp
      have "fl_lt z y \<or> z = y" using False fl_lt_total [OF ny nz] by blast
      then show ?thesis using b xz fl_lt_trans by blast
    qed
    then show ?thesis using False by simp
  qed
qed

lemma fold_min_lb: "\<not> isnan y \<Longrightarrow> \<forall>x \<in> set ys. \<not> isnan x \<Longrightarrow> x \<in> set (y # ys) \<Longrightarrow>
    \<not> fl_lt x (fold (\<lambda>a m. if fl_lt a m then a else m) ys y)"
proof (induction ys arbitrary: y x)
  case Nil
  then show ?case by (simp add: fl_lt_irrefl)
next
  case (Cons z zs)
  have nz: "\<not> isnan z" and zs: "\<forall>x \<in> set zs. \<not> isnan x" and ny: "\<not> isnan y"
    using Cons.prems by auto
  show ?case
  proof (cases "fl_lt z y")
    case True
    have a: "\<And>w. w \<in> set (z # zs) \<Longrightarrow> \<not> fl_lt w (fold (\<lambda>a m. if fl_lt a m then a else m) zs z)"
      using Cons.IH [OF nz zs] by blast
    have "\<not> fl_lt x (fold (\<lambda>a m. if fl_lt a m then a else m) zs z)"
    proof (cases "x = y")
      case False
      then show ?thesis using a [of x] Cons.prems(3) by auto
    next
      case xy: True
      have "\<not> fl_lt z (fold (\<lambda>a m. if fl_lt a m then a else m) zs z)" using a [of z] by simp
      then show ?thesis using True xy fl_lt_trans by blast
    qed
    then show ?thesis using True by simp
  next
    case False
    have a: "\<And>w. w \<in> set (y # zs) \<Longrightarrow> \<not> fl_lt w (fold (\<lambda>a m. if fl_lt a m then a else m) zs y)"
      using Cons.IH [OF ny zs] by blast
    have "\<not> fl_lt x (fold (\<lambda>a m. if fl_lt a m then a else m) zs y)"
    proof (cases "x = z")
      case False
      then show ?thesis using a [of x] Cons.prems(3) by auto
    next
      case xz: True
      have b: "\<not> fl_lt y (fold (\<lambda>a m. if fl_lt a m then a else m) zs y)" using a [of y] by simp
      have "fl_lt y z \<or> z = y" using False fl_lt_total [OF nz ny] by blast
      then show ?thesis using b xz fl_lt_trans by blast
    qed
    then show ?thesis using False by simp
  qed
qed

lemma fl_lt_NaN_right: "\<not> fl_lt c NaN"
  by (cases c) auto

lemma np_any_map: "np_any (map f xs) = (\<exists>x \<in> set xs. f x)"
  by (auto simp: np_any_def)

lemma filter_no_nan: "\<forall>x \<in> set xs. \<not> isnan x \<Longrightarrow> filter (\<lambda>x. \<not> isnan x) xs = xs"
  by (induction xs) auto

lemma np_max_gt:
  assumes "\<forall>x \<in> set xs. \<not> isnan x"
  shows "fl_lt c (np_max xs) = (\<exists>x \<in> set xs. fl_lt c x)"
proof (cases xs)
  case Nil
  then show ?thesis by (simp add: np_max_def fl_lt_NaN_right)
next
  case (Cons y ys)
  let ?m = "fold (\<lambda>a m. if fl_lt m a then a else m) ys y"
  have ny: "\<not> isnan y" and nys: "\<forall>x \<in> set ys. \<not> isnan x" using assms Cons by auto
  have m: "np_max xs = ?m" using filter_no_nan [OF assms] Cons by (simp add: np_max_def)
  have mem: "?m \<in> set xs" using fold_max_mem [of ys y] Cons by simp
  have nm: "\<not> isnan ?m" by (rule fold_max_nan [OF ny nys])
  show ?thesis
  proof
    assume "fl_lt c (np_max xs)"
    then show "\<exists>x \<in> set xs. fl_lt c x" using m mem by auto
  next
    assume "\<exists>x \<in> set xs. fl_lt c x"
    then obtain x where x: "x \<in> set xs" "fl_lt c x" by blast
    have "\<not> fl_lt ?m x" using fold_max_ub [OF ny nys] x(1) Cons by simp
    moreover have "\<not> isnan x" using assms x(1) by blast
    ultimately have "x = ?m \<or> fl_lt x ?m" using fl_lt_total [OF nm, of x] by blast
    then show "fl_lt c (np_max xs)" using x(2) m fl_lt_trans by auto
  qed
qed

lemma np_min_lt:
  assumes "\<forall>x \<in> set xs. \<not> isnan x"
  shows "fl_lt (np_min xs) c = (\<exists>x \<in> set xs. fl_lt x c)"
proof (cases xs)
  case Nil
  then show ?thesis by (simp add: np_min_def)
next
  case (Cons y ys)
  let ?m = "fold (\<lambda>a m. if fl_lt a m then a else m) ys y"
  have ny: "\<not> isnan y" and nys: "\<forall>x \<in> set ys. \<not> isnan x" using assms Cons by auto
  have m: "np_min xs = ?m" using filter_no_nan [OF assms] Cons by (simp add: np_min_def)
  have mem: "?m \<in> set xs" using fold_min_mem [of ys y] Cons by simp
  have nm: "\<not> isnan ?m" by (rule fold_min_nan [OF ny nys])
  show ?thesis
  proof
    assume "fl_lt (np_min xs) c"
    then show "\<exists>x \<in> set xs. fl_lt x c" using m mem by auto
  next
    assume "\<exists>x \<in> set xs. fl_lt x c"
    then obtain x where x: "x \<in> set xs" "fl_lt x c" by blast
    have "\<not> fl_lt x ?m" using fold_min_lb [OF ny nys] x(1) Cons by simp
    moreover have "\<not> isnan x" using assms x(1) by blast
    ultimately have "x = ?m \<or> fl_lt ?m x" using fl_lt_total [OF nm, of x] by blast
    then show "fl_lt (np_min xs) c" using x(2) m fl_lt_trans by auto
  qed
qed

lemma np_max_mem: "\<forall>x \<in> set xs. \<not> isnan x \<Longrightarrow> xs \<noteq> [] \<Longrightarrow> np_max xs \<in> set xs"
  using fold_max_mem [of "tl xs" "hd xs"] filter_no_nan [of xs]
  by (cases xs) (auto simp: np_max_def)

lemma np_min_mem: "\<forall>x \<in> set xs. \<not> isnan x \<Longrightarrow> xs \<noteq> [] \<Longrightarrow> np_min xs \<in> set xs"
  using fold_min_mem [of "tl xs" "hd xs"] filter_no_nan [of xs]
  by (cases xs) (auto simp: np_min_def)

lemma np_max_empty: "np_max [] = NaN"
  by (simp add: np_max_def)

lemma np_min_empty: "np_min [] = NaN"
  by (simp add: np_min_def)

lemma np_min_le:
  assumes "\<forall>x \<in> set xs. \<not> isnan x"
  shows "fl_le (np_min xs) c = (\<exists>x \<in> set xs. fl_le x c)"
proof (cases "xs = []")
  case True
  then show ?thesis by (simp add: np_min_empty fl_le_def fl_eq_def)
next
  case False
  have mem: "np_min xs \<in> set xs" by (rule np_min_mem [OF assms False])
  show ?thesis
  proof
    assume "fl_le (np_min xs) c"
    then show "\<exists>x \<in> set xs. fl_le x c" using mem by blast
  next
    assume "\<exists>x \<in> set xs. fl_le x c"
    then obtain x where x: "x \<in> set xs" "fl_le x c" by blast
    show "fl_le (np_min xs) c"
    proof (cases "fl_lt x c")
      case True
      then have "fl_lt (np_min xs) c" using np_min_lt [OF assms, of c] x(1) by blast
      then show ?thesis by (simp add: fl_le_def)
    next
      case F: False
      then have xc: "x = c" using x(2) by (auto simp: fl_le_def fl_eq_def)
      have "\<not> isnan (np_min xs)" using mem assms by blast
      moreover have "\<not> isnan c" using xc assms x(1) by blast
      moreover have "\<not> fl_lt c (np_min xs)"
      proof
        assume "fl_lt c (np_min xs)"
        moreover have "\<not> fl_lt (np_min xs) (np_min xs)" by (rule fl_lt_irrefl)
        ultimately have "\<not> fl_lt c (np_min xs)"
          using np_min_lt [OF assms, of "np_min xs"] x(1) xc by blast
        then show False using \<open>fl_lt c (np_min xs)\<close> by blast
      qed
      ultimately show ?thesis using fl_lt_total [of "np_min xs" c]
        by (auto simp: fl_le_def fl_eq_def)
    qed
  qed
qed

lemma np_max_ge:
  assumes "\<forall>x \<in> set xs. \<not> isnan x"
  shows "fl_ge (np_max xs) c = (\<exists>x \<in> set xs. fl_ge x c)"
proof (cases "xs = []")
  case True
  then show ?thesis by (cases c) (auto simp: np_max_empty fl_ge_def fl_le_def fl_eq_def)
next
  case False
  have mem: "np_max xs \<in> set xs" by (rule np_max_mem [OF assms False])
  show ?thesis
  proof
    assume "fl_ge (np_max xs) c"
    then show "\<exists>x \<in> set xs. fl_ge x c" using mem by blast
  next
    assume "\<exists>x \<in> set xs. fl_ge x c"
    then obtain x where x: "x \<in> set xs" "fl_ge x c" by blast
    show "fl_ge (np_max xs) c"
    proof (cases "fl_lt c x")
      case True
      then have "fl_lt c (np_max xs)" using np_max_gt [OF assms, of c] x(1) by blast
      then show ?thesis by (simp add: fl_ge_def fl_le_def)
    next
      case F: False
      then have xc: "x = c" using x(2) by (auto simp: fl_ge_def fl_le_def fl_eq_def)
      have "\<not> isnan (np_max xs)" using mem assms by blast
      moreover have "\<not> isnan c" using xc assms x(1) by blast
      moreover have "\<not> fl_lt (np_max xs) c"
      proof
        assume a: "fl_lt (np_max xs) c"
        have "\<not> fl_lt (np_max xs) (np_max xs)" by (rule fl_lt_irrefl)
        then have "\<not> fl_lt (np_max xs) c"
          using np_max_gt [OF assms, of "np_max xs"] x(1) xc by blast
        then show False using a by blast
      qed
      ultimately show ?thesis using fl_lt_total [of c "np_max xs"]
        by (auto simp: fl_ge_def fl_le_def fl_eq_def)
    qed
  qed
qed

lemma check_pvalue_cases:
  "check_pvalue P =
     (if \<exists>p \<in> set P. isnan p then Inl (ValueError ''Missing P-values'')
      else if \<exists>p \<in> set P. fl_gt p (Fin 1) then Inl (ValueError ''P-values cannot be > 1.'')
      else if \<exists>p \<in> set P. fl_le p (Fin 0) then Inl (ValueError ''P values cannot be <= 0'')
      else Inr ())"
proof (cases "\<exists>p \<in> set P. isnan p")
  case True
  then show ?thesis by (simp add: check_pvalue_def np_any_map)
next
  case False
  then have nn: "\<forall>x \<in> set P. \<not> isnan x" by blast
  show ?thesis using False np_max_gt [OF nn, of "Fin 1"] np_min_le [OF nn, of "Fin 0"]
    by (simp add: check_pvalue_def np_any_map fl_gt_def)
qed

section \<open>The checks in closed form\<close>

lemma check_dir_cases:
  "check_dir dir = (if \<exists>d \<in> set dir. d \<noteq> 1 \<and> d \<noteq> - 1
                    then Inl (ValueError ''DIR entry not equal to +/- 1.'') else Inr ())"
proof -
  have "zip (map (\<lambda>d. d \<noteq> 1) dir) (map (\<lambda>d. d \<noteq> - 1) dir)
        = map (\<lambda>d. (d \<noteq> 1, d \<noteq> - 1)) dir"
    by (induction dir) auto
  then have "np_any (map (\<lambda>(a, b). a \<and> b)
               (zip (map (\<lambda>d. d \<noteq> 1) dir) (map (\<lambda>d. d \<noteq> - 1) dir)))
             = (\<exists>d \<in> set dir. d \<noteq> 1 \<and> d \<noteq> - 1)"
    by (simp add: np_any_map)
  then show ?thesis by (simp only: check_dir_def Let_def)
qed

lemma fold_min_int: "fold min (ns :: int list) n < 0 \<longleftrightarrow> (\<exists>m \<in> set (n # ns). m < 0)"
  by (induction ns arbitrary: n) (auto simp: min_def)

lemma check_N_cases:
  "check_N N = (if \<exists>n \<in> set N. n < 0 then Inl (ValueError ''Negative N.'') else Inr ())"
proof (cases N)
  case Nil
  then show ?thesis by (simp add: check_N_def int_min_def)
next
  case (Cons n ns)
  then show ?thesis using fold_min_int [of ns n] by (simp add: check_N_def int_min_def)
qed

lemma duplicated_iff: "np_any (duplicated xs) \<longleftrightarrow> \<not> distinct xs"
proof -
  have "(\<exists>i<length xs. xs ! i \<in> set (drop (Suc i) xs)) \<longleftrightarrow> \<not> distinct xs"
    by (induction xs) (auto simp: Ex_less_Suc2)
  then show ?thesis by (auto simp: np_any_def duplicated_def)
qed

lemma check_rsid_cases:
  "check_rsid rsids =
     (if ''.'' \<in> set rsids then Inl (ValueError ''Some SNP identifiers are set to . (a dot).'')
      else if \<not> distinct rsids then Inl (ValueError ''Duplicated SNP identifiers.'')
      else Inr ())"
  by (auto simp: check_rsid_def np_any_map duplicated_iff)

lemma np_max_PInf:
  assumes "\<forall>x \<in> set xs. \<not> isnan x"
  shows "fl_eq (np_max xs) PInf \<longleftrightarrow> PInf \<in> set xs"
proof -
  have a: "\<And>x. fl_ge x PInf \<longleftrightarrow> x = PInf"
  proof -
    fix x show "fl_ge x PInf \<longleftrightarrow> x = PInf"
      by (cases x) (auto simp: fl_ge_def fl_le_def fl_eq_def)
  qed
  have b: "\<And>x. fl_eq x PInf \<longleftrightarrow> x = PInf"
  proof -
    fix x show "fl_eq x PInf \<longleftrightarrow> x = PInf"
      by (cases x) (auto simp: fl_eq_def)
  qed
  show ?thesis using np_max_ge [OF assms, of PInf] unfolding a b by simp
qed

lemma check_chisq_cases:
  "check_chisq c =
     (if \<exists>x \<in> set c. isnan x then Inl (ValueError ''Missing chi-square statistics.'')
      else if PInf \<in> set c then Inl (ValueError ''Infinite chi-square statistics.'')
      else if \<exists>x \<in> set c. fl_lt x (Fin 0) then Inl (ValueError ''Negative chi-square statistics'')
      else Inr ())"
proof (cases "\<exists>x \<in> set c. isnan x")
  case True
  then show ?thesis by (simp add: check_chisq_def np_any_map)
next
  case False
  then have nn: "\<forall>x \<in> set c. \<not> isnan x" by blast
  show ?thesis using False np_max_PInf [OF nn] np_min_lt [OF nn, of "Fin 0"]
    by (simp add: check_chisq_def np_any_map)
qed

lemma check_maf_cases:
  "check_maf maf =
     (if \<exists>x \<in> set maf. isnan x then Inl (ValueError ''Missing values in MAF.'')
      else if \<exists>x \<in> set maf. fl_ge x (Fin 1) then Inl (ValueError ''MAF >= 1.'')
      else if \<exists>x \<in> set maf. fl_le x (Fin 0) then Inl (ValueError ''MAF <= 0.'')
      else Inr ())"
proof (cases "\<exists>x \<in> set maf. isnan x")
  case True
  then show ?thesis by (simp add: check_maf_def np_any_map)
next
  case False
  then have nn: "\<forall>x \<in> set maf. \<not> isnan x" by blast
  show ?thesis using False np_max_ge [OF nn, of "Fin 1"] np_min_le [OF nn, of "Fin 0"]
    by (simp add: check_maf_def np_any_map)
qed










section \<open>P-value validation\<close>

text \<open>
  C6: \<open>check_pvalue\<close> raises a ValueError exactly when the column holds a NaN, a value
  above 1 or a value at or below 0, and it raises nothing else; a column passes exactly
  when every entry lies in the half-open interval (0, 1].
\<close>

theorem check_pvalue_iff:
  "((\<exists>msg. check_pvalue P = Inl (ValueError msg)) \<longleftrightarrow>
      (\<exists>p \<in> set P. isnan p \<or> fl_gt p (Fin 1) \<or> fl_le p (Fin 0)))
   \<and> (check_pvalue P = Inr () \<longleftrightarrow> (\<forall>p \<in> set P. fl_gt p (Fin 0) \<and> fl_le p (Fin 1)))
   \<and> (check_pvalue P = Inr () \<or> (\<exists>msg. check_pvalue P = Inl (ValueError msg)))"
proof -
  have interval: "\<And>p. (fl_gt p (Fin 0) \<and> fl_le p (Fin 1)) =
      (\<not> isnan p \<and> \<not> fl_gt p (Fin 1) \<and> \<not> fl_le p (Fin 0))"
  proof -
    fix p show "(fl_gt p (Fin 0) \<and> fl_le p (Fin 1)) =
      (\<not> isnan p \<and> \<not> fl_gt p (Fin 1) \<and> \<not> fl_le p (Fin 0))"
      by (cases p) (auto simp: fl_gt_def fl_le_def fl_eq_def)
  qed
  show ?thesis unfolding check_pvalue_cases interval by auto
qed

theorem check_pvalue_iff_witness:
  "check_pvalue [Fin (1/2), Fin 1] = Inr ()
   \<and> (\<exists>msg. check_pvalue [Fin (1/2), Fin 0] = Inl (ValueError msg))
   \<and> (\<exists>msg. check_pvalue [Fin 2] = Inl (ValueError msg))
   \<and> (\<exists>msg. check_pvalue [Fin (1/2), NaN] = Inl (ValueError msg))"
  using check_pvalue_iff [of "[Fin (1/2), Fin 1]"] check_pvalue_iff [of "[Fin (1/2), Fin 0]"]
    check_pvalue_iff [of "[Fin 2]"] check_pvalue_iff [of "[Fin (1/2), NaN]"]
  by (simp add: fl_gt_def fl_le_def fl_eq_def)

section \<open>Facts about frames\<close>

lemma bindE_Inr: "bindE m f = Inr y \<longleftrightarrow> (\<exists>v. m = Inr v \<and> f v = Inr y)"
  by (cases m) (auto simp: bindE_def)

lemma bindE_Inr_E: "bindE m f = Inr y \<Longrightarrow> (\<And>v. m = Inr v \<Longrightarrow> f v = Inr y \<Longrightarrow> R) \<Longrightarrow> R"
  by (auto simp: bindE_Inr)

lemma columns_setitem: "k \<in> set (columns x) \<Longrightarrow> columns (setitem x k c) = columns x"
  by (auto simp: setitem_def columns_def split: prod.splits)

lemma columns_setitem_new: "k \<notin> set (columns x) \<Longrightarrow> columns (setitem x k c) = columns x @ [k]"
  by (auto simp: setitem_def columns_def)

lemma columns_rename: "columns (rename x old new) = map (\<lambda>n. if n = old then new else n) (columns x)"
  by (auto simp: rename_def columns_def split: prod.splits)

lemma columns_read_csv: "columns (read_csv fh u) = filter (\<lambda>n. n \<in> set u) (columns fh)"
  by (induction fh) (auto simp: read_csv_def columns_def)

lemma getitem_Inr_mem: "getitem x k = Inr c \<Longrightarrow> (k, c) \<in> set x"
  by (auto simp: getitem_def split: option.splits dest: map_of_SomeD)

lemma getitem_in_columns: "getitem x k = Inr c \<Longrightarrow> k \<in> set (columns x)"
  by (force simp: columns_def dest: getitem_Inr_mem)

lemma map_of_setitem_other:
  "k' \<noteq> k \<Longrightarrow> map_of (map (\<lambda>(n, c'). if n = k then (n, c) else (n, c')) x) k' = map_of x k'"
  by (induction x) auto

lemma map_of_setitem_same:
  "k \<in> fst ` set x \<Longrightarrow> map_of (map (\<lambda>(n, c'). if n = k then (n, c) else (n, c')) x) k = Some c"
  by (induction x) auto

lemma getitem_setitem_other: "k' \<noteq> k \<Longrightarrow> getitem (setitem x k c) k' = getitem x k'"
  by (auto simp: getitem_def setitem_def map_of_setitem_other map_add_def split: option.splits)

lemma getitem_setitem_same: "getitem (setitem x k c) k = Inr c"
proof (cases "k \<in> set (columns x)")
  case True
  then show ?thesis by (simp add: getitem_def setitem_def columns_def map_of_setitem_same)
next
  case False
  then have "map_of x k = None" by (simp add: columns_def map_of_eq_None_iff)
  then show ?thesis using False by (simp add: getitem_def setitem_def map_add_def)
qed

lemma nth_setitem_same:
  "j < length x \<Longrightarrow> fst (x ! j) = k \<Longrightarrow> setitem x k c ! j = (k, c)"
  by (auto simp: setitem_def columns_def split: prod.splits)

lemma nth_setitem_other:
  "j < length x \<Longrightarrow> fst (x ! j) \<noteq> k \<Longrightarrow> setitem x k c ! j = x ! j"
  by (auto simp: setitem_def columns_def nth_append split: prod.splits)

lemma length_setitem_old: "k \<in> set (columns x) \<Longrightarrow> length (setitem x k c) = length x"
  by (simp add: setitem_def)

lemma nth_rename: "j < length x \<Longrightarrow> rename x old new ! j = (if fst (x ! j) = old then new else fst (x ! j), snd (x ! j))"
  by (auto simp: rename_def split: prod.splits)

lemma length_rename: "length (rename x old new) = length x"
  by (simp add: rename_def)

lemma get_flt_setitem_other: "k' \<noteq> k \<Longrightarrow> get_flt (setitem x k c) k' = get_flt x k'"
  by (simp add: get_flt_def getitem_setitem_other)

lemma get_int_setitem_other: "k' \<noteq> k \<Longrightarrow> get_int (setitem x k c) k' = get_int x k'"
  by (simp add: get_int_def getitem_setitem_other)

lemma get_str_setitem_other: "k' \<noteq> k \<Longrightarrow> get_str (setitem x k c) k' = get_str x k'"
  by (simp add: get_str_def getitem_setitem_other)

lemma map_of_read_csv: "k \<in> set u \<Longrightarrow> map_of (read_csv fh u) k = map_of fh k"
  by (induction fh) (auto simp: read_csv_def)

lemma getitem_read_csv: "k \<in> set u \<Longrightarrow> getitem (read_csv fh u) k = getitem fh k"
  by (simp add: getitem_def map_of_read_csv)

lemma get_flt_read_csv: "k \<in> set u \<Longrightarrow> get_flt (read_csv fh u) k = get_flt fh k"
  by (simp add: get_flt_def getitem_read_csv)

lemma get_int_read_csv: "k \<in> set u \<Longrightarrow> get_int (read_csv fh u) k = get_int fh k"
  by (simp add: get_int_def getitem_read_csv)

lemma get_str_read_csv: "k \<in> set u \<Longrightarrow> get_str (read_csv fh u) k = get_str fh k"
  by (simp add: get_str_def getitem_read_csv)

lemma get_flt_in_columns: "get_flt x k = Inr v \<Longrightarrow> k \<in> set (columns x)"
  by (auto simp: get_flt_def bindE_Inr dest: getitem_in_columns)

lemma get_int_in_columns: "get_int x k = Inr v \<Longrightarrow> k \<in> set (columns x)"
  by (auto simp: get_int_def bindE_Inr dest: getitem_in_columns)

lemma get_str_in_columns: "get_str x k = Inr v \<Longrightarrow> k \<in> set (columns x)"
  by (auto simp: get_str_def bindE_Inr dest: getitem_in_columns)

lemma check_pvalue_Inr: "check_pvalue P = Inr u \<Longrightarrow> \<forall>p \<in> set P. fl_gt p (Fin 0) \<and> fl_le p (Fin 1)"
proof -
  assume a: "check_pvalue P = Inr u"
  have "\<And>p. \<not> isnan p \<Longrightarrow> \<not> fl_gt p (Fin 1) \<Longrightarrow> \<not> fl_le p (Fin 0) \<Longrightarrow> fl_gt p (Fin 0) \<and> fl_le p (Fin 1)"
  proof -
    fix p show "\<not> isnan p \<Longrightarrow> \<not> fl_gt p (Fin 1) \<Longrightarrow> \<not> fl_le p (Fin 0) \<Longrightarrow> fl_gt p (Fin 0) \<and> fl_le p (Fin 1)"
      by (cases p) (auto simp: fl_gt_def fl_le_def fl_eq_def)
  qed
  then show ?thesis using a unfolding check_pvalue_cases by (auto split: if_splits)
qed

lemma columns_filter_ne: "columns (filter (\<lambda>(n, c). n \<noteq> d) x) = filter (\<lambda>n. n \<noteq> d) (columns x)"
  by (induction x) (auto simp: columns_def)

lemma map_of_filter_ne: "k \<noteq> d \<Longrightarrow> map_of (filter (\<lambda>(n, c). n \<noteq> d) x) k = map_of x k"
  by (induction x) auto

lemma getitem_filter_ne: "k \<noteq> d \<Longrightarrow> getitem (filter (\<lambda>(n, c). n \<noteq> d) x) k = getitem x k"
  by (simp add: getitem_def map_of_filter_ne)

lemma map_of_rename_other:
  "k \<noteq> a \<Longrightarrow> k \<noteq> b \<Longrightarrow> map_of (rename x a b) k = map_of x k"
  by (induction x) (auto simp: rename_def)

lemma getitem_rename_other: "k \<noteq> a \<Longrightarrow> k \<noteq> b \<Longrightarrow> getitem (rename x a b) k = getitem x k"
  by (simp add: getitem_def map_of_rename_other)

lemma map_of_rename_new:
  "b \<notin> fst ` set x \<Longrightarrow> map_of (rename x a b) b = map_of x a"
  by (induction x) (auto simp: rename_def)

lemma getitem_rename_new:
  "b \<notin> set (columns x) \<Longrightarrow> getitem x a = Inr c \<Longrightarrow> getitem (rename x a b) b = Inr c"
  by (auto simp: getitem_def columns_def map_of_rename_new split: option.splits)

lemma delitem_Inr: "delitem x d = Inr y \<Longrightarrow> y = filter (\<lambda>(n, c). n \<noteq> d) x"
  by (auto simp: delitem_def split: if_splits)

lemma get_flt_setitem_FltCol: "get_flt (setitem x k (FltCol v)) k = Inr v"
  by (simp add: get_flt_def getitem_setitem_same bindE_def)

lemma in_columns_setitem: "k' \<in> set (columns (setitem x k c)) \<longleftrightarrow> k' = k \<or> k' \<in> set (columns x)"
  by (cases "k \<in> set (columns x)") (auto simp: columns_setitem columns_setitem_new)

lemma in_columns_read_csv:
  "k \<in> set (columns (read_csv fh u)) \<longleftrightarrow> k \<in> set u \<and> k \<in> set (columns fh)"
  by (auto simp: columns_read_csv)

lemma in_columns_rename:
  "k \<noteq> a \<Longrightarrow> k \<noteq> b \<Longrightarrow> k \<in> set (columns (rename x a b)) \<longleftrightarrow> k \<in> set (columns x)"
  by (auto simp: columns_rename)

lemma in_columns_rename_new:
  "a \<in> set (columns x) \<Longrightarrow> b \<in> set (columns (rename x a b))"
  by (auto simp: columns_rename)

lemma in_columns_filter_ne:
  "k \<in> set (columns (filter (\<lambda>(n, c). n \<noteq> d) x)) \<longleftrightarrow> k \<noteq> d \<and> k \<in> set (columns x)"
  by (auto simp: columns_filter_ne)

lemma get_int_cong: "getitem x k = getitem x' k' \<Longrightarrow> get_int x k = get_int x' k'"
  by (simp add: get_int_def)

lemma get_flt_cong: "getitem x k = getitem x' k' \<Longrightarrow> get_flt x k = get_flt x' k'"
  by (simp add: get_flt_def)











lemmas frame_eval =
  read_csv_def get_int_def get_flt_def get_str_def getitem_def setitem_def rename_def
  delitem_def columns_def bindE_def float_of_int_def betahat_col_def fold_maf_def
  fl_fmin_def fl_gt_def fl_ge_def fl_le_def fl_eq_def
  check_N_cases check_dir_cases check_rsid_cases check_pvalue_cases check_chisq_cases
  check_maf_cases

section \<open>Sample runs\<close>

lemma chisq_run_ex: "chisq chdtri1_sample chisq_file_ex = Inr chisq_out_ex"
  by (simp add: chisq_def chisq_usecols_def chisq_file_ex_def chisq_out_ex_def
      chdtri1_sample_def frame_eval)

lemma betaprod_run_ex: "betaprod chdtri1_sample amin betaprod_file_ex = Inr betaprod_out_ex"
  by (simp add: betaprod_def betaprod_usecols_def betaprod_iter_def betahat_block_def
      maf_block_def betaprod_file_ex_def betaprod_out_ex_def chdtri1_sample_def frame_eval)

lemma chisq_both_run_ex: "chisq chdtri1_sample chisq_both_ex = Inr chisq_both_out_ex"
  by (simp add: chisq_def chisq_usecols_def chisq_both_ex_def chisq_both_out_ex_def
      chdtri1_sample_def frame_eval)

lemma betaprod_both_run_ex:
  "betaprod chdtri1_sample amin betaprod_both_ex = Inr betaprod_both_out_ex"
  by (simp add: betaprod_def betaprod_usecols_def betaprod_iter_def betahat_block_def
      maf_block_def betaprod_both_ex_def betaprod_both_out_ex_def chdtri1_sample_def frame_eval)

lemma np_min_ex: "np_min [Fin (1/10), Fin (7/10)] = Fin (1/10)"
  by (simp add: np_min_def)

lemma betaprod_maf_run_ignoring:
  "betaprod chdtri1_sample amin_ignoring_axis betaprod_maf_ex = Inr betaprod_maf_out_ex"
  by (simp add: betaprod_def betaprod_usecols_def betaprod_iter_def betahat_block_def
      maf_block_def betaprod_maf_ex_def betaprod_maf_out_ex_def chdtri1_sample_def
      amin_ignoring_axis_def np_min_ex frame_eval)

lemma betaprod_maf_run_rejecting:
  "betaprod chdtri1_sample amin_rejecting_axis betaprod_maf_ex
     = Inl (ValueError ''No axis named for object type Series'')"
  by (simp add: betaprod_def betaprod_usecols_def betaprod_iter_def betahat_block_def
      maf_block_def betaprod_maf_ex_def chdtri1_sample_def
      amin_rejecting_axis_def frame_eval)

section \<open>The chisq parser\<close>

text \<open>The frame that chisq holds when it reaches the P / CHISQ branch.\<close>

lemma chisq_Inr_P:
  assumes ok: "chisq chdtri1 fh = Inr y" and P: "''P'' \<in> set (columns fh)"
  shows "\<exists>x P. columns x = columns (read_csv fh chisq_usecols)
           \<and> get_flt x ''P'' = get_flt fh ''P''
           \<and> get_flt x ''P'' = Inr P \<and> check_pvalue P = Inr ()
           \<and> y = rename (setitem x ''P'' (FltCol (map chdtri1 P))) ''P'' ''CHISQ''"
proof -
  define x0 where "x0 = read_csv fh chisq_usecols"
  from ok obtain N where N: "get_int x0 ''N'' = Inr N"
    and r1: "bindE (get_str (setitem x0 ''N'' (FltCol (map float_of_int N))) ''SNP'') (\<lambda>snp. bindE (check_rsid snp) (\<lambda>_.
            bindE (if ''MAF'' \<in> set (columns (setitem x0 ''N'' (FltCol (map float_of_int N))))
                   then bindE (get_flt (setitem x0 ''N'' (FltCol (map float_of_int N))) ''MAF'') (\<lambda>maf. bindE (check_maf maf) (\<lambda>_.
                          Inr (setitem (setitem x0 ''N'' (FltCol (map float_of_int N))) ''MAF'' (FltCol (fold_maf maf)))))
                   else Inr (setitem x0 ''N'' (FltCol (map float_of_int N)))) (\<lambda>x.
            if ''P'' \<in> set (columns x)
            then bindE (get_flt x ''P'') (\<lambda>P. bindE (check_pvalue P) (\<lambda>_.
                   Inr (rename (setitem x ''P'' (FltCol (map chdtri1 P))) ''P'' ''CHISQ'')))
            else if ''CHISQ'' \<in> set (columns x)
            then bindE (get_flt x ''CHISQ'') (\<lambda>c. bindE (check_chisq c) (\<lambda>_. Inr x))
            else Inl (ValueError
                   ''.chisq file must have a column labeled either P or CHISQ.'')))) = Inr y"
    unfolding chisq_def Let_def x0_def bindE_Inr by blast
  define x1 where "x1 = setitem x0 ''N'' (FltCol (map float_of_int N))"
  from r1 obtain x2 where
    maf: "(if ''MAF'' \<in> set (columns x1)
           then bindE (get_flt x1 ''MAF'') (\<lambda>maf. bindE (check_maf maf) (\<lambda>_.
                  Inr (setitem x1 ''MAF'' (FltCol (fold_maf maf)))))
           else Inr x1) = Inr x2"
    and fin: "(if ''P'' \<in> set (columns x2)
            then bindE (get_flt x2 ''P'') (\<lambda>P. bindE (check_pvalue P) (\<lambda>_.
                   Inr (rename (setitem x2 ''P'' (FltCol (map chdtri1 P))) ''P'' ''CHISQ'')))
            else if ''CHISQ'' \<in> set (columns x2)
            then bindE (get_flt x2 ''CHISQ'') (\<lambda>c. bindE (check_chisq c) (\<lambda>_. Inr x2))
            else Inl (ValueError
                   ''.chisq file must have a column labeled either P or CHISQ.'')) = Inr y"
    unfolding x1_def [symmetric] bindE_Inr by blast
  have c1: "columns x1 = columns x0"
    unfolding x1_def using get_int_in_columns [OF N] by (rule columns_setitem)
  have p1: "get_flt x1 ''P'' = get_flt x0 ''P''"
    unfolding x1_def by (rule get_flt_setitem_other) simp
  have x2: "columns x2 = columns x1 \<and> get_flt x2 ''P'' = get_flt x1 ''P''"
  proof (cases "''MAF'' \<in> set (columns x1)")
    case True
    with maf obtain m where "x2 = setitem x1 ''MAF'' (FltCol (fold_maf m))"
      by (auto simp: bindE_Inr)
    then show ?thesis using True by (simp add: columns_setitem get_flt_setitem_other)
  next
    case False
    with maf show ?thesis by simp
  qed
  have p0: "get_flt x0 ''P'' = get_flt fh ''P''"
    unfolding x0_def by (simp add: get_flt_read_csv chisq_usecols_def)
  have "''P'' \<in> set (columns x0)"
    unfolding x0_def using P by (simp add: columns_read_csv chisq_usecols_def)
  then have "''P'' \<in> set (columns x2)" using x2 c1 by simp
  with fin obtain Pv where Pv: "get_flt x2 ''P'' = Inr Pv" "check_pvalue Pv = Inr ()"
    "y = rename (setitem x2 ''P'' (FltCol (map chdtri1 Pv))) ''P'' ''CHISQ''"
    by (auto simp: bindE_Inr)
  have "columns x2 = columns (read_csv fh chisq_usecols)" using x2 c1 x0_def by simp
  moreover have "get_flt x2 ''P'' = get_flt fh ''P''" using x2 p1 p0 by simp
  ultimately show ?thesis using Pv by blast
qed


text \<open>Every step an accepted chisq file went through.\<close>

lemma chisq_Inr_shape:
  assumes ok: "chisq chdtri1 fh = Inr y"
  shows "\<exists>N snp x2.
      get_int fh ''N'' = Inr N \<and> check_N N = Inr ()
    \<and> get_str fh ''SNP'' = Inr snp \<and> check_rsid snp = Inr ()
    \<and> ((''MAF'' \<notin> set (columns fh)
          \<and> x2 = setitem (read_csv fh chisq_usecols) ''N'' (FltCol (map float_of_int N)))
       \<or> (''MAF'' \<in> set (columns fh)
          \<and> (\<exists>m. get_flt fh ''MAF'' = Inr m \<and> check_maf m = Inr ()
                \<and> x2 = setitem (setitem (read_csv fh chisq_usecols) ''N''
                             (FltCol (map float_of_int N))) ''MAF'' (FltCol (fold_maf m)))))
    \<and> ((''P'' \<in> set (columns fh)
          \<and> (\<exists>p. get_flt fh ''P'' = Inr p \<and> check_pvalue p = Inr ()
                \<and> y = rename (setitem x2 ''P'' (FltCol (map chdtri1 p))) ''P'' ''CHISQ''))
       \<or> (''P'' \<notin> set (columns fh) \<and> ''CHISQ'' \<in> set (columns fh)
          \<and> (\<exists>c. get_flt fh ''CHISQ'' = Inr c \<and> check_chisq c = Inr () \<and> y = x2)))"
proof -
  define x0 where "x0 = read_csv fh chisq_usecols"
  from ok obtain N u1 snp u2 x2 where
        N: "get_int x0 ''N'' = Inr N" and cN: "check_N N = Inr u1"
    and snp: "get_str (setitem x0 ''N'' (FltCol (map float_of_int N))) ''SNP'' = Inr snp"
    and cs: "check_rsid snp = Inr u2"
    and maf: "(if ''MAF'' \<in> set (columns (setitem x0 ''N'' (FltCol (map float_of_int N))))
               then bindE (get_flt (setitem x0 ''N'' (FltCol (map float_of_int N))) ''MAF'')
                      (\<lambda>maf. bindE (check_maf maf) (\<lambda>_.
                        Inr (setitem (setitem x0 ''N'' (FltCol (map float_of_int N))) ''MAF''
                               (FltCol (fold_maf maf)))))
               else Inr (setitem x0 ''N'' (FltCol (map float_of_int N)))) = Inr x2"
    and fin: "(if ''P'' \<in> set (columns x2)
            then bindE (get_flt x2 ''P'') (\<lambda>P. bindE (check_pvalue P) (\<lambda>_.
                   Inr (rename (setitem x2 ''P'' (FltCol (map chdtri1 P))) ''P'' ''CHISQ'')))
            else if ''CHISQ'' \<in> set (columns x2)
            then bindE (get_flt x2 ''CHISQ'') (\<lambda>c. bindE (check_chisq c) (\<lambda>_. Inr x2))
            else Inl (ValueError
                   ''.chisq file must have a column labeled either P or CHISQ.'')) = Inr y"
    unfolding chisq_def Let_def x0_def bindE_Inr by blast
  define x1 where "x1 = setitem x0 ''N'' (FltCol (map float_of_int N))"
  have u: "''N'' \<in> set chisq_usecols" "''SNP'' \<in> set chisq_usecols" "''MAF'' \<in> set chisq_usecols"
    "''P'' \<in> set chisq_usecols" "''CHISQ'' \<in> set chisq_usecols"
    by (simp_all add: chisq_usecols_def)
  have N0: "get_int fh ''N'' = Inr N" using N u(1) unfolding x0_def by (simp add: get_int_read_csv)
  have s0: "get_str fh ''SNP'' = Inr snp"
    using snp u(2) unfolding x0_def by (simp add: get_str_setitem_other get_str_read_csv)
  have Nin: "''N'' \<in> set (columns x0)" using N by (rule get_int_in_columns)
  have c1: "columns x1 = columns x0" unfolding x1_def using Nin by (rule columns_setitem)
  have in0: "\<And>k. k \<in> set chisq_usecols \<Longrightarrow> k \<in> set (columns x0) \<longleftrightarrow> k \<in> set (columns fh)"
    unfolding x0_def by (simp add: in_columns_read_csv)
  have g1: "\<And>k. k \<noteq> ''N'' \<Longrightarrow> k \<in> set chisq_usecols \<Longrightarrow> get_flt x1 k = get_flt fh k"
    unfolding x1_def x0_def by (simp add: get_flt_setitem_other get_flt_read_csv)
  have mafp: "(''MAF'' \<notin> set (columns fh) \<and> x2 = x1)
       \<or> (''MAF'' \<in> set (columns fh)
          \<and> (\<exists>m. get_flt fh ''MAF'' = Inr m \<and> check_maf m = Inr ()
                \<and> x2 = setitem x1 ''MAF'' (FltCol (fold_maf m))))"
  proof (cases "''MAF'' \<in> set (columns fh)")
    case True
    then have "''MAF'' \<in> set (columns x1)" using c1 in0 [OF u(3)] by simp
    with maf obtain m um where "get_flt x1 ''MAF'' = Inr m" "check_maf m = Inr um"
      "x2 = setitem x1 ''MAF'' (FltCol (fold_maf m))"
      unfolding x1_def [symmetric] by (auto simp: bindE_Inr)
    then show ?thesis using True g1 [OF _ u(3)] by auto
  next
    case False
    then have "''MAF'' \<notin> set (columns x1)" using c1 in0 [OF u(3)] by simp
    with maf have "x2 = x1" unfolding x1_def [symmetric] by simp
    then show ?thesis using False by simp
  qed
  have "''MAF'' \<in> set (columns fh) \<Longrightarrow> ''MAF'' \<in> set (columns x1)"
    using c1 in0 [OF u(3)] by simp
  then have c2: "columns x2 = columns x0" using mafp c1 by (auto simp: columns_setitem)
  have g2: "\<And>k. k \<noteq> ''N'' \<Longrightarrow> k \<noteq> ''MAF'' \<Longrightarrow> k \<in> set chisq_usecols \<Longrightarrow> get_flt x2 k = get_flt fh k"
    using mafp g1 by (auto simp: get_flt_setitem_other)
  have finp: "(''P'' \<in> set (columns fh)
          \<and> (\<exists>p. get_flt fh ''P'' = Inr p \<and> check_pvalue p = Inr ()
                \<and> y = rename (setitem x2 ''P'' (FltCol (map chdtri1 p))) ''P'' ''CHISQ''))
       \<or> (''P'' \<notin> set (columns fh) \<and> ''CHISQ'' \<in> set (columns fh)
          \<and> (\<exists>c. get_flt fh ''CHISQ'' = Inr c \<and> check_chisq c = Inr () \<and> y = x2))"
  proof (cases "''P'' \<in> set (columns fh)")
    case True
    then have "''P'' \<in> set (columns x2)" using c2 in0 [OF u(4)] by simp
    with fin obtain p up where "get_flt x2 ''P'' = Inr p" "check_pvalue p = Inr up"
      "y = rename (setitem x2 ''P'' (FltCol (map chdtri1 p))) ''P'' ''CHISQ''"
      by (auto simp: bindE_Inr)
    then show ?thesis using True g2 [OF _ _ u(4)] by auto
  next
    case False
    then have nP: "''P'' \<notin> set (columns x2)" using c2 in0 [OF u(4)] by simp
    show ?thesis
    proof (cases "''CHISQ'' \<in> set (columns fh)")
      case True
      then have "''CHISQ'' \<in> set (columns x2)" using c2 in0 [OF u(5)] by simp
      with fin nP obtain c uc where "get_flt x2 ''CHISQ'' = Inr c" "check_chisq c = Inr uc" "y = x2"
        by (auto simp: bindE_Inr)
      then show ?thesis using True False g2 [OF _ _ u(5)] by auto
    next
      case F: False
      then have "''CHISQ'' \<notin> set (columns x2)" using c2 in0 [OF u(5)] by simp
      with fin nP show ?thesis by simp
    qed
  qed
  have cN': "check_N N = Inr ()" and cs': "check_rsid snp = Inr ()" using cN cs by simp_all
  show ?thesis
    apply (rule exI [of _ N], rule exI [of _ snp], rule exI [of _ x2])
    using N0 cN' s0 cs' mafp [unfolded x1_def x0_def] finp by (intro conjI)
qed


lemma chisq_accepts_P:
  assumes P: "''P'' \<in> set (columns fh)"
    and N: "get_int fh ''N'' = Inr N" and cN: "check_N N = Inr ()"
    and snp: "get_str fh ''SNP'' = Inr snp" and cs: "check_rsid snp = Inr ()"
    and maf: "''MAF'' \<in> set (columns fh) \<longrightarrow> (\<exists>m. get_flt fh ''MAF'' = Inr m \<and> check_maf m = Inr ())"
    and p: "get_flt fh ''P'' = Inr p" and cp: "check_pvalue p = Inr ()"
  shows "\<exists>y. chisq chdtri1 fh = Inr y"
proof -
  define x0 where "x0 = read_csv fh chisq_usecols"
  define x1 where "x1 = setitem x0 ''N'' (FltCol (map float_of_int N))"
  have u: "''N'' \<in> set chisq_usecols" "''SNP'' \<in> set chisq_usecols" "''MAF'' \<in> set chisq_usecols"
    "''P'' \<in> set chisq_usecols"
    by (simp_all add: chisq_usecols_def)
  have e1: "get_int x0 ''N'' = Inr N" unfolding x0_def using N u(1) by (simp add: get_int_read_csv)
  have Nin: "''N'' \<in> set (columns x0)" using e1 by (rule get_int_in_columns)
  have c1: "columns x1 = columns x0" unfolding x1_def using Nin by (rule columns_setitem)
  have e2: "get_str x1 ''SNP'' = Inr snp"
    unfolding x1_def x0_def using snp u(2) by (simp add: get_str_setitem_other get_str_read_csv)
  have e3: "''MAF'' \<in> set (columns x1) \<longleftrightarrow> ''MAF'' \<in> set (columns fh)"
    unfolding c1 x0_def using u(3) by (simp add: in_columns_read_csv)
  have e4: "get_flt x1 ''MAF'' = get_flt fh ''MAF''"
    unfolding x1_def x0_def using u(3) by (simp add: get_flt_setitem_other get_flt_read_csv)
  have e5: "''P'' \<in> set (columns x1)"
    unfolding c1 x0_def using u(4) P by (simp add: in_columns_read_csv)
  have e6: "get_flt x1 ''P'' = Inr p"
    unfolding x1_def x0_def using u(4) p by (simp add: get_flt_setitem_other get_flt_read_csv)
  have e7: "\<And>c. ''P'' \<in> set (columns (setitem x1 ''MAF'' c))"
    using e5 by (simp add: in_columns_setitem)
  have e8: "\<And>c. get_flt (setitem x1 ''MAF'' c) ''P'' = Inr p"
    using e6 by (simp add: get_flt_setitem_other)
  have unf: "chisq chdtri1 fh =
      bindE (get_int x0 ''N'') (\<lambda>N. bindE (check_N N) (\<lambda>_.
         let x = setitem x0 ''N'' (FltCol (map float_of_int N))
         in bindE (get_str x ''SNP'') (\<lambda>snp. bindE (check_rsid snp) (\<lambda>_.
            bindE (if ''MAF'' \<in> set (columns x)
                   then bindE (get_flt x ''MAF'') (\<lambda>maf. bindE (check_maf maf) (\<lambda>_.
                          Inr (setitem x ''MAF'' (FltCol (fold_maf maf)))))
                   else Inr x) (\<lambda>x.
            if ''P'' \<in> set (columns x)
            then bindE (get_flt x ''P'') (\<lambda>P. bindE (check_pvalue P) (\<lambda>_.
                   Inr (rename (setitem x ''P'' (FltCol (map chdtri1 P))) ''P'' ''CHISQ'')))
            else if ''CHISQ'' \<in> set (columns x)
            then bindE (get_flt x ''CHISQ'') (\<lambda>c. bindE (check_chisq c) (\<lambda>_. Inr x))
            else Inl (ValueError
                   ''.chisq file must have a column labeled either P or CHISQ.''))))))"
    unfolding chisq_def x0_def Let_def ..
  show ?thesis
  proof (cases "''MAF'' \<in> set (columns fh)")
    case True
    then obtain m where m: "get_flt fh ''MAF'' = Inr m" "check_maf m = Inr ()" using maf by blast
    show ?thesis unfolding unf e1
      by (simp add: bindE_def cN x1_def [symmetric] e2 cs e3 True e4 m e7 e8 cp)
  next
    case False
    show ?thesis unfolding unf e1
      by (simp add: bindE_def cN x1_def [symmetric] e2 cs e3 False e5 e6 cp)
  qed
qed

text \<open>What chisq does with a MAF column: validated in (0, 1), then folded by np.fmin.\<close>

lemma chisq_maf_fold:
  assumes ok: "chisq chdtri1 fh = Inr y" and M: "''MAF'' \<in> set (columns fh)"
  shows "\<exists>m. get_flt fh ''MAF'' = Inr m
           \<and> (\<forall>v \<in> set m. fl_gt v (Fin 0) \<and> fl_lt v (Fin 1))
           \<and> getitem y ''MAF'' = Inr (FltCol (map (\<lambda>v. fl_fmin v (fl_sub (Fin 1) v)) m))"
proof -
  from chisq_Inr_shape [OF ok] M obtain N x2 m where
        m: "get_flt fh ''MAF'' = Inr m" "check_maf m = Inr ()"
    and x2: "x2 = setitem (setitem (read_csv fh chisq_usecols) ''N''
                             (FltCol (map float_of_int N))) ''MAF'' (FltCol (fold_maf m))"
    and y: "(\<exists>p. y = rename (setitem x2 ''P'' (FltCol (map chdtri1 p))) ''P'' ''CHISQ'') \<or> y = x2"
    by blast
  have g2: "getitem x2 ''MAF'' = Inr (FltCol (fold_maf m))"
    unfolding x2 by (rule getitem_setitem_same)
  have gy: "getitem y ''MAF'' = Inr (FltCol (fold_maf m))"
    using y g2 by (auto simp: getitem_rename_other getitem_setitem_other)
  have fm: "fold_maf m = map (\<lambda>v. fl_fmin v (fl_sub (Fin 1) v)) m"
    unfolding fold_maf_def by (induction m) auto
  have rng: "\<And>v. \<not> isnan v \<Longrightarrow> \<not> fl_ge v (Fin 1) \<Longrightarrow> \<not> fl_le v (Fin 0)
          \<Longrightarrow> fl_gt v (Fin 0) \<and> fl_lt v (Fin 1)"
  proof -
    fix v show "\<not> isnan v \<Longrightarrow> \<not> fl_ge v (Fin 1) \<Longrightarrow> \<not> fl_le v (Fin 0)
          \<Longrightarrow> fl_gt v (Fin 0) \<and> fl_lt v (Fin 1)"
      by (cases v) (auto simp: fl_gt_def fl_ge_def fl_le_def fl_eq_def)
  qed
  have "\<forall>v \<in> set m. fl_gt v (Fin 0) \<and> fl_lt v (Fin 1)"
    using m(2) rng unfolding check_maf_cases by (auto split: if_splits)
  then show ?thesis using m(1) gy fm by auto
qed


lemma length_read_csv_columns: "length (columns x) = length x"
  by (simp add: columns_def)

lemma nth_columns: "j < length x \<Longrightarrow> columns x ! j = fst (x ! j)"
  by (simp add: columns_def)

text \<open>In the P branch of chisq every column but N, MAF and P comes back as it was read.\<close>

lemma chisq_P_branch_frame:
  assumes ok: "chisq chdtri1 fh = Inr y" and P: "''P'' \<in> set (columns fh)"
  shows "\<exists>p. get_flt fh ''P'' = Inr p \<and> check_pvalue p = Inr ()
          \<and> length y = length (read_csv fh chisq_usecols)
          \<and> (\<forall>j < length y. columns (read_csv fh chisq_usecols) ! j = ''P''
                \<longrightarrow> y ! j = (''CHISQ'', FltCol (map chdtri1 p)))
          \<and> (\<forall>j < length y. columns (read_csv fh chisq_usecols) ! j \<notin> {''N'', ''MAF'', ''P''}
                \<longrightarrow> y ! j = read_csv fh chisq_usecols ! j)"
proof -
  define x0 where "x0 = read_csv fh chisq_usecols"
  from chisq_Inr_shape [OF ok] P obtain N x2 p where
        N: "get_int fh ''N'' = Inr N"
    and x2: "x2 = setitem x0 ''N'' (FltCol (map float_of_int N))
             \<or> (\<exists>c. ''MAF'' \<in> set (columns fh)
                   \<and> x2 = setitem (setitem x0 ''N'' (FltCol (map float_of_int N))) ''MAF'' c)"
    and p: "get_flt fh ''P'' = Inr p" "check_pvalue p = Inr ()"
    and y: "y = rename (setitem x2 ''P'' (FltCol (map chdtri1 p))) ''P'' ''CHISQ''"
    unfolding x0_def by blast
  define x1 where "x1 = setitem x0 ''N'' (FltCol (map float_of_int N))"
  have u: "''N'' \<in> set chisq_usecols" "''MAF'' \<in> set chisq_usecols" "''P'' \<in> set chisq_usecols"
    by (simp_all add: chisq_usecols_def)
  have Nin: "''N'' \<in> set (columns x0)"
    unfolding x0_def using get_int_in_columns [OF N] u(1) by (simp add: in_columns_read_csv)
  have c1: "columns x1 = columns x0" unfolding x1_def using Nin by (rule columns_setitem)
  have l1: "length x1 = length x0" unfolding x1_def using Nin by (rule length_setitem_old)
  have Min: "''MAF'' \<in> set (columns fh) \<Longrightarrow> ''MAF'' \<in> set (columns x1)"
    unfolding c1 x0_def using u(2) by (simp add: in_columns_read_csv)
  have x2': "x2 = x1 \<or> (\<exists>c. ''MAF'' \<in> set (columns x1) \<and> x2 = setitem x1 ''MAF'' c)"
    using x2 Min unfolding x1_def by blast
  have c2: "columns x2 = columns x0" using x2' c1 by (auto simp: columns_setitem)
  have l2: "length x2 = length x0" using x2' l1 by (auto simp: length_setitem_old)
  have Pin: "''P'' \<in> set (columns x2)"
    unfolding c2 x0_def using P u(3) by (simp add: in_columns_read_csv)
  let ?x3 = "setitem x2 ''P'' (FltCol (map chdtri1 p))"
  have l3: "length ?x3 = length x0" using Pin l2 by (simp add: length_setitem_old)
  have ly: "length y = length x0" unfolding y using l3 by (simp add: length_rename)
  have n1: "\<And>j. j < length x0 \<Longrightarrow> fst (x0 ! j) \<noteq> ''N'' \<Longrightarrow> x1 ! j = x0 ! j"
    unfolding x1_def by (rule nth_setitem_other)
  have n2: "\<And>j. j < length x0 \<Longrightarrow> fst (x0 ! j) \<noteq> ''N'' \<Longrightarrow> fst (x0 ! j) \<noteq> ''MAF''
               \<Longrightarrow> x2 ! j = x0 ! j"
  proof -
    fix j assume j: "j < length x0" and a: "fst (x0 ! j) \<noteq> ''N''" and b: "fst (x0 ! j) \<noteq> ''MAF''"
    have e: "x1 ! j = x0 ! j" using n1 [OF j a] .
    show "x2 ! j = x0 ! j"
    proof (cases "x2 = x1")
      case True
      then show ?thesis using e by simp
    next
      case False
      then obtain c where "x2 = setitem x1 ''MAF'' c" using x2' by blast
      moreover have "setitem x1 ''MAF'' c ! j = x1 ! j"
        using j l1 b e by (intro nth_setitem_other) simp_all
      ultimately show ?thesis using e by simp
    qed
  qed
  have fst2: "\<And>j. j < length x0 \<Longrightarrow> fst (x2 ! j) = fst (x0 ! j)"
  proof -
    fix j assume j: "j < length x0"
    have "columns x2 ! j = columns x0 ! j" using c2 by simp
    then show "fst (x2 ! j) = fst (x0 ! j)" using j l2 by (simp add: nth_columns)
  qed
  have posP: "\<forall>j < length y. columns x0 ! j = ''P'' \<longrightarrow> y ! j = (''CHISQ'', FltCol (map chdtri1 p))"
  proof (intro allI impI)
    fix j assume j: "j < length y" and n: "columns x0 ! j = ''P''"
    have j0: "j < length x0" using j ly by simp
    have f: "fst (x2 ! j) = ''P''" using fst2 [OF j0] n j0 by (simp add: nth_columns)
    have "?x3 ! j = (''P'', FltCol (map chdtri1 p))"
      using j0 l2 f by (intro nth_setitem_same) simp_all
    then show "y ! j = (''CHISQ'', FltCol (map chdtri1 p))"
      unfolding y using j0 l3 by (simp add: nth_rename)
  qed
  have posO: "\<forall>j < length y. columns x0 ! j \<notin> {''N'', ''MAF'', ''P''} \<longrightarrow> y ! j = x0 ! j"
  proof (intro allI impI)
    fix j assume j: "j < length y" and n: "columns x0 ! j \<notin> {''N'', ''MAF'', ''P''}"
    have j0: "j < length x0" using j ly by simp
    have f0: "fst (x0 ! j) \<noteq> ''N''" "fst (x0 ! j) \<noteq> ''MAF''" "fst (x0 ! j) \<noteq> ''P''"
      using n j0 by (simp_all add: nth_columns)
    have e2: "x2 ! j = x0 ! j" using n2 [OF j0 f0(1) f0(2)] .
    have "?x3 ! j = x2 ! j"
      using j0 l2 f0(3) e2 by (intro nth_setitem_other) simp_all
    then have e3: "?x3 ! j = x0 ! j" using e2 by simp
    show "y ! j = x0 ! j"
      unfolding y using j0 l3 e3 f0(3) by (simp add: nth_rename prod_eq_iff)
  qed
  show ?thesis using p ly posP posO unfolding x0_def by blast
qed


text \<open>
  C2: when chisq accepts a file that has a P column, every P value lies in (0, 1], and in
  the returned table the column that was P is named CHISQ and holds chdtri(1, p) for each
  p; no column named P remains.
\<close>

theorem chisq_replaces_P:
  assumes ok: "chisq chdtri1 fh = Inr y" and P: "''P'' \<in> set (columns fh)"
  shows "\<exists>P. get_flt fh ''P'' = Inr P
           \<and> (\<forall>p \<in> set P. fl_gt p (Fin 0) \<and> fl_le p (Fin 1))
           \<and> columns y = map (\<lambda>n. if n = ''P'' then ''CHISQ'' else n)
                            (columns (read_csv fh chisq_usecols))
           \<and> ''P'' \<notin> set (columns y)
           \<and> (\<forall>j < length y. columns (read_csv fh chisq_usecols) ! j = ''P''
                  \<longrightarrow> y ! j = (''CHISQ'', FltCol (map chdtri1 P)))"
proof -
  from chisq_Inr_P [OF ok P] obtain x Pv where
    cx: "columns x = columns (read_csv fh chisq_usecols)"
    and g: "get_flt x ''P'' = get_flt fh ''P''" "get_flt x ''P'' = Inr Pv"
    and chk: "check_pvalue Pv = Inr ()"
    and y: "y = rename (setitem x ''P'' (FltCol (map chdtri1 Pv))) ''P'' ''CHISQ''"
    by blast
  have Px: "''P'' \<in> set (columns x)" using g(2) by (rule get_flt_in_columns)
  have cy: "columns y = map (\<lambda>n. if n = ''P'' then ''CHISQ'' else n) (columns x)"
    unfolding y by (simp add: columns_rename columns_setitem [OF Px])
  have notP: "''P'' \<notin> set (columns y)" unfolding cy by auto
  have len: "length y = length x" unfolding y by (simp add: length_rename length_setitem_old [OF Px])
  have pos: "\<forall>j < length y. columns x ! j = ''P'' \<longrightarrow> y ! j = (''CHISQ'', FltCol (map chdtri1 Pv))"
  proof (intro allI impI)
    fix j assume j: "j < length y" and n: "columns x ! j = ''P''"
    have jx: "j < length x" using j len by simp
    then have f: "fst (x ! j) = ''P''" using n by (simp add: columns_def)
    have "setitem x ''P'' (FltCol (map chdtri1 Pv)) ! j = (''P'', FltCol (map chdtri1 Pv))"
      by (rule nth_setitem_same [OF jx f])
    moreover have "j < length (setitem x ''P'' (FltCol (map chdtri1 Pv)))"
      using jx by (simp add: length_setitem_old [OF Px])
    ultimately show "y ! j = (''CHISQ'', FltCol (map chdtri1 Pv))"
      unfolding y by (simp add: nth_rename)
  qed
  have "get_flt fh ''P'' = Inr Pv" using g by simp
  moreover have "\<forall>p \<in> set Pv. fl_gt p (Fin 0) \<and> fl_le p (Fin 1)"
    using chk by (rule check_pvalue_Inr)
  ultimately show ?thesis using cy notP pos cx by auto
qed

theorem chisq_replaces_P_witness:
  "chisq chdtri1_sample chisq_file_ex = Inr chisq_out_ex
   \<and> ''P'' \<in> set (columns chisq_file_ex)
   \<and> (\<exists>P. get_flt chisq_file_ex ''P'' = Inr P
           \<and> (\<forall>p \<in> set P. fl_gt p (Fin 0) \<and> fl_le p (Fin 1))
           \<and> columns chisq_out_ex = map (\<lambda>n. if n = ''P'' then ''CHISQ'' else n)
                            (columns (read_csv chisq_file_ex chisq_usecols))
           \<and> ''P'' \<notin> set (columns chisq_out_ex)
           \<and> (\<forall>j < length chisq_out_ex. columns (read_csv chisq_file_ex chisq_usecols) ! j = ''P''
                  \<longrightarrow> chisq_out_ex ! j = (''CHISQ'', FltCol (map chdtri1_sample P))))"
proof -
  have P: "''P'' \<in> set (columns chisq_file_ex)"
    by (simp add: chisq_file_ex_def columns_def)
  show ?thesis using chisq_replaces_P [OF chisq_run_ex P] chisq_run_ex P by simp
qed

section \<open>Acceptance and rows of chisq\<close>




section \<open>The betaprod parser\<close>

lemma betahat_block_Inr:
  assumes ok: "betahat_block chdtri1 i dir x = Inr y"
    and nf: "get_flt x (''N'' @ i) = Inr nf"
  shows "\<exists>q src.
      ((''CHISQ'' @ i \<in> set (columns x) \<and> src = ''CHISQ'' @ i
           \<and> get_flt x (''CHISQ'' @ i) = Inr q \<and> check_chisq q = Inr ())
       \<or> (''CHISQ'' @ i \<notin> set (columns x) \<and> ''P'' @ i \<in> set (columns x) \<and> src = ''P'' @ i
           \<and> (\<exists>p. get_flt x (''P'' @ i) = Inr p \<and> check_pvalue p = Inr () \<and> q = map chdtri1 p)))
    \<and> y = rename (setitem x src (FltCol (betahat_col q nf dir))) src (''BETAHAT'' @ i)"
proof (cases "''CHISQ'' @ i \<in> set (columns x)")
  case True
  with ok nf obtain q where "get_flt x (''CHISQ'' @ i) = Inr q" "check_chisq q = Inr ()"
    "y = rename (setitem x (''CHISQ'' @ i) (FltCol (betahat_col q nf dir)))
           (''CHISQ'' @ i) (''BETAHAT'' @ i)"
    by (auto simp: betahat_block_def Let_def bindE_Inr)
  then show ?thesis using True by blast
next
  case False
  show ?thesis
  proof (cases "''P'' @ i \<in> set (columns x)")
    case True
    with False ok nf obtain p where "get_flt x (''P'' @ i) = Inr p" "check_pvalue p = Inr ()"
      "y = rename (setitem x (''P'' @ i) (FltCol (betahat_col (map chdtri1 p) nf dir)))
             (''P'' @ i) (''BETAHAT'' @ i)"
      by (auto simp: betahat_block_def Let_def bindE_Inr)
    then show ?thesis using True False by blast
  next
    case F2: False
    with False ok show ?thesis by (simp add: betahat_block_def Let_def)
  qed
qed

lemma maf_block_Inr:
  assumes "maf_block amin i x = Inr y"
  shows "y = x \<or> (\<exists>c. ''MAF'' @ i \<in> set (columns x) \<and> y = setitem x (''MAF'' @ i) c)"
  using assms by (auto simp: maf_block_def Let_def bindE_Inr split: if_splits)

text \<open>The shape of the frame after one pass of the loop.\<close>

lemma betaprod_iter_shape:
  assumes ok: "betaprod_iter chdtri1 amin i x = Inr y"
  shows "\<exists>n dir q src x3.
      get_int x (''N'' @ i) = Inr n \<and> check_N n = Inr ()
    \<and> get_int x (''DIR'' @ i) = Inr dir \<and> check_dir dir = Inr ()
    \<and> ((''CHISQ'' @ i \<in> set (columns x) \<and> src = ''CHISQ'' @ i
           \<and> get_flt x (''CHISQ'' @ i) = Inr q \<and> check_chisq q = Inr ())
       \<or> (''CHISQ'' @ i \<notin> set (columns x) \<and> ''P'' @ i \<in> set (columns x) \<and> src = ''P'' @ i
           \<and> (\<exists>p. get_flt x (''P'' @ i) = Inr p \<and> check_pvalue p = Inr () \<and> q = map chdtri1 p)))
    \<and> x3 = filter (\<lambda>(k, c). k \<noteq> ''DIR'' @ i)
             (rename (setitem (setitem x (''N'' @ i) (FltCol (map float_of_int n))) src
                        (FltCol (betahat_col q (map float_of_int n) dir)))
                src (''BETAHAT'' @ i))
    \<and> (y = x3 \<or> (\<exists>c. ''MAF'' @ i \<in> set (columns x3) \<and> y = setitem x3 (''MAF'' @ i) c))"
proof -
  from ok obtain n u1 dir u2 x2 x3 where
        n: "get_int x (''N'' @ i) = Inr n" and cn: "check_N n = Inr u1"
    and dir: "get_int (setitem x (''N'' @ i) (FltCol (map float_of_int n))) (''DIR'' @ i) = Inr dir"
    and cd: "check_dir dir = Inr u2"
    and blk: "betahat_block chdtri1 i dir (setitem x (''N'' @ i) (FltCol (map float_of_int n))) = Inr x2"
    and del: "delitem x2 (''DIR'' @ i) = Inr x3"
    and maf: "maf_block amin i x3 = Inr y"
    unfolding betaprod_iter_def Let_def bindE_Inr by blast
  define x1 where "x1 = setitem x (''N'' @ i) (FltCol (map float_of_int n))"
  have Nin: "''N'' @ i \<in> set (columns x)" using n by (rule get_int_in_columns)
  have c1: "columns x1 = columns x" unfolding x1_def using Nin by (rule columns_setitem)
  have nf: "get_flt x1 (''N'' @ i) = Inr (map float_of_int n)"
    unfolding x1_def by (rule get_flt_setitem_FltCol)
  have dir0: "get_int x (''DIR'' @ i) = Inr dir"
    using dir by (simp add: get_int_setitem_other)
  have x3: "x3 = filter (\<lambda>(k, c). k \<noteq> ''DIR'' @ i) x2" using del by (rule delitem_Inr)
  have y: "y = x3 \<or> (\<exists>c. ''MAF'' @ i \<in> set (columns x3) \<and> y = setitem x3 (''MAF'' @ i) c)"
    using maf by (rule maf_block_Inr)
  from betahat_block_Inr [OF blk [folded x1_def] nf] obtain q src where
    s: "(''CHISQ'' @ i \<in> set (columns x1) \<and> src = ''CHISQ'' @ i
           \<and> get_flt x1 (''CHISQ'' @ i) = Inr q \<and> check_chisq q = Inr ())
       \<or> (''CHISQ'' @ i \<notin> set (columns x1) \<and> ''P'' @ i \<in> set (columns x1) \<and> src = ''P'' @ i
           \<and> (\<exists>p. get_flt x1 (''P'' @ i) = Inr p \<and> check_pvalue p = Inr () \<and> q = map chdtri1 p))"
    and x2: "x2 = rename (setitem x1 src (FltCol (betahat_col q (map float_of_int n) dir))) src (''BETAHAT'' @ i)"
    by blast
  have g1: "get_flt x1 (''CHISQ'' @ i) = get_flt x (''CHISQ'' @ i)"
    unfolding x1_def by (simp add: get_flt_setitem_other)
  have g2: "get_flt x1 (''P'' @ i) = get_flt x (''P'' @ i)"
    unfolding x1_def by (simp add: get_flt_setitem_other)
  have s': "(''CHISQ'' @ i \<in> set (columns x) \<and> src = ''CHISQ'' @ i
           \<and> get_flt x (''CHISQ'' @ i) = Inr q \<and> check_chisq q = Inr ())
       \<or> (''CHISQ'' @ i \<notin> set (columns x) \<and> ''P'' @ i \<in> set (columns x) \<and> src = ''P'' @ i
           \<and> (\<exists>p. get_flt x (''P'' @ i) = Inr p \<and> check_pvalue p = Inr () \<and> q = map chdtri1 p))"
    using s unfolding c1 g1 g2 .
  have x3': "x3 = filter (\<lambda>(k, c). k \<noteq> ''DIR'' @ i)
             (rename (setitem (setitem x (''N'' @ i) (FltCol (map float_of_int n))) src
                        (FltCol (betahat_col q (map float_of_int n) dir)))
                src (''BETAHAT'' @ i))"
    using x3 x2 unfolding x1_def by simp
  have cn': "check_N n = Inr ()" using cn by simp
  have cd': "check_dir dir = Inr ()" using cd by simp
  show ?thesis
    apply (rule exI [of _ n], rule exI [of _ dir], rule exI [of _ q], rule exI [of _ src],
        rule exI [of _ x3])
    using n cn' dir0 cd' s' x3' y by (intro conjI)
qed


lemma betaprod_iter_effect:
  assumes ok: "betaprod_iter chdtri1 amin i x = Inr y"
  shows "\<exists>n dir q src.
      get_int x (''N'' @ i) = Inr n \<and> check_N n = Inr ()
    \<and> get_int x (''DIR'' @ i) = Inr dir \<and> check_dir dir = Inr ()
    \<and> ((''CHISQ'' @ i \<in> set (columns x) \<and> src = ''CHISQ'' @ i
           \<and> get_flt x (''CHISQ'' @ i) = Inr q \<and> check_chisq q = Inr ())
       \<or> (''CHISQ'' @ i \<notin> set (columns x) \<and> ''P'' @ i \<in> set (columns x) \<and> src = ''P'' @ i
           \<and> (\<exists>p. get_flt x (''P'' @ i) = Inr p \<and> check_pvalue p = Inr () \<and> q = map chdtri1 p)))
    \<and> (''BETAHAT'' @ i \<notin> set (columns x) \<longrightarrow>
          getitem y (''BETAHAT'' @ i) = Inr (FltCol (betahat_col q (map float_of_int n) dir)))
    \<and> ''DIR'' @ i \<notin> set (columns y)
    \<and> (\<forall>k. k \<notin> {''N'' @ i, src, ''DIR'' @ i, ''MAF'' @ i, ''BETAHAT'' @ i} \<longrightarrow>
          getitem y k = getitem x k)
    \<and> (\<forall>k. k \<notin> {src, ''DIR'' @ i, ''BETAHAT'' @ i} \<longrightarrow>
          (k \<in> set (columns y) \<longleftrightarrow> k \<in> set (columns x)))"
proof -
  from betaprod_iter_shape [OF ok] obtain n dir q src x3 where
        n: "get_int x (''N'' @ i) = Inr n" "check_N n = Inr ()"
    and dir: "get_int x (''DIR'' @ i) = Inr dir" "check_dir dir = Inr ()"
    and s: "(''CHISQ'' @ i \<in> set (columns x) \<and> src = ''CHISQ'' @ i
           \<and> get_flt x (''CHISQ'' @ i) = Inr q \<and> check_chisq q = Inr ())
       \<or> (''CHISQ'' @ i \<notin> set (columns x) \<and> ''P'' @ i \<in> set (columns x) \<and> src = ''P'' @ i
           \<and> (\<exists>p. get_flt x (''P'' @ i) = Inr p \<and> check_pvalue p = Inr () \<and> q = map chdtri1 p))"
    and x3: "x3 = filter (\<lambda>(k, c). k \<noteq> ''DIR'' @ i)
             (rename (setitem (setitem x (''N'' @ i) (FltCol (map float_of_int n))) src
                        (FltCol (betahat_col q (map float_of_int n) dir)))
                src (''BETAHAT'' @ i))"
    and y: "y = x3 \<or> (\<exists>c. ''MAF'' @ i \<in> set (columns x3) \<and> y = setitem x3 (''MAF'' @ i) c)"
    by blast
  let ?bh = "FltCol (betahat_col q (map float_of_int n) dir)"
  let ?B = "''BETAHAT'' @ i"
  define x1 where "x1 = setitem x (''N'' @ i) (FltCol (map float_of_int n))"
  define x2 where "x2 = setitem x1 src ?bh"
  have x3r: "x3 = filter (\<lambda>(k, c). k \<noteq> ''DIR'' @ i) (rename x2 src ?B)"
    using x3 unfolding x1_def x2_def .
  have srcs: "src = ''CHISQ'' @ i \<or> src = ''P'' @ i" using s by blast
  have src_in: "src \<in> set (columns x)" using s by blast
  have Nin: "''N'' @ i \<in> set (columns x)" using n(1) by (rule get_int_in_columns)
  have c1: "columns x1 = columns x" unfolding x1_def using Nin by (rule columns_setitem)
  have c2: "columns x2 = columns x" unfolding x2_def using src_in c1 by (simp add: columns_setitem)
  have ne: "src \<noteq> ''DIR'' @ i" "src \<noteq> ''MAF'' @ i" "src \<noteq> ?B" "src \<noteq> ''N'' @ i"
    using srcs by auto
  have cy: "columns y = columns x3" using y by (auto simp: columns_setitem)
  have dirout: "''DIR'' @ i \<notin> set (columns y)" unfolding cy x3r by (simp add: in_columns_filter_ne)
  have B: "?B \<notin> set (columns x) \<longrightarrow> getitem y ?B = Inr ?bh"
  proof
    assume nb: "?B \<notin> set (columns x)"
    have "getitem x2 src = Inr ?bh" unfolding x2_def by (rule getitem_setitem_same)
    moreover have "?B \<notin> set (columns x2)" using nb c2 by simp
    ultimately have "getitem (rename x2 src ?B) ?B = Inr ?bh" by (rule getitem_rename_new [rotated])
    then have "getitem x3 ?B = Inr ?bh" unfolding x3r by (simp add: getitem_filter_ne)
    then show "getitem y ?B = Inr ?bh" using y by (auto simp: getitem_setitem_other)
  qed
  have other: "\<forall>k. k \<notin> {''N'' @ i, src, ''DIR'' @ i, ''MAF'' @ i, ?B} \<longrightarrow> getitem y k = getitem x k"
  proof (intro allI impI)
    fix k assume k: "k \<notin> {''N'' @ i, src, ''DIR'' @ i, ''MAF'' @ i, ?B}"
    have "getitem x3 k = getitem (rename x2 src ?B) k"
      unfolding x3r using k by (simp add: getitem_filter_ne)
    also have "\<dots> = getitem x2 k" using k by (simp add: getitem_rename_other)
    also have "\<dots> = getitem x1 k" unfolding x2_def using k by (simp add: getitem_setitem_other)
    also have "\<dots> = getitem x k" unfolding x1_def using k by (simp add: getitem_setitem_other)
    finally have "getitem x3 k = getitem x k" .
    moreover have "getitem y k = getitem x3 k" using y k by (auto simp: getitem_setitem_other)
    ultimately show "getitem y k = getitem x k" by simp
  qed
  have cols: "\<forall>k. k \<notin> {src, ''DIR'' @ i, ?B} \<longrightarrow> (k \<in> set (columns y) \<longleftrightarrow> k \<in> set (columns x))"
  proof (intro allI impI)
    fix k assume k: "k \<notin> {src, ''DIR'' @ i, ?B}"
    have "k \<in> set (columns x3) \<longleftrightarrow> k \<in> set (columns (rename x2 src ?B))"
      unfolding x3r using k by (simp add: in_columns_filter_ne)
    also have "\<dots> \<longleftrightarrow> k \<in> set (columns x2)" using k by (simp add: in_columns_rename)
    finally show "k \<in> set (columns y) \<longleftrightarrow> k \<in> set (columns x)" using cy c2 by simp
  qed
  show ?thesis
    apply (rule exI [of _ n], rule exI [of _ dir], rule exI [of _ q], rule exI [of _ src])
    using n dir s B dirout other cols by (intro conjI)
qed

lemma betaprod_passes:
  assumes ok: "betaprod chdtri1 amin fh = Inr y"
  shows "\<exists>xa. betaprod_iter chdtri1 amin ''1'' (read_csv fh betaprod_usecols) = Inr xa
             \<and> betaprod_iter chdtri1 amin ''2'' xa = Inr y"
  using ok unfolding betaprod_def Let_def bindE_Inr by (auto simp: bindE_Inr)


lemma betaprod_iter_effectE:
  assumes ok: "betaprod_iter chdtri1 amin i x = Inr y"
  obtains n dir q src where
      "get_int x (''N'' @ i) = Inr n" "check_N n = Inr ()"
      "get_int x (''DIR'' @ i) = Inr dir" "check_dir dir = Inr ()"
      "(''CHISQ'' @ i \<in> set (columns x) \<and> src = ''CHISQ'' @ i
           \<and> get_flt x (''CHISQ'' @ i) = Inr q \<and> check_chisq q = Inr ())
       \<or> (''CHISQ'' @ i \<notin> set (columns x) \<and> ''P'' @ i \<in> set (columns x) \<and> src = ''P'' @ i
           \<and> (\<exists>p. get_flt x (''P'' @ i) = Inr p \<and> check_pvalue p = Inr () \<and> q = map chdtri1 p))"
      "''BETAHAT'' @ i \<notin> set (columns x) \<longrightarrow>
          getitem y (''BETAHAT'' @ i) = Inr (FltCol (betahat_col q (map float_of_int n) dir))"
      "''DIR'' @ i \<notin> set (columns y)"
      "\<forall>k. k \<notin> {''N'' @ i, src, ''DIR'' @ i, ''MAF'' @ i, ''BETAHAT'' @ i} \<longrightarrow>
          getitem y k = getitem x k"
      "\<forall>k. k \<notin> {src, ''DIR'' @ i, ''BETAHAT'' @ i} \<longrightarrow>
          (k \<in> set (columns y) \<longleftrightarrow> k \<in> set (columns x))"
  using betaprod_iter_effect [OF ok] by (elim exE conjE) (rule that)

text \<open>What an accepted betaprod file went through, for the first phenotype.\<close>

lemma betaprod_facts1:
  assumes ok: "betaprod chdtri1 amin fh = Inr y"
  shows "\<exists>n dir q.
      get_int fh ''N1'' = Inr n \<and> check_N n = Inr ()
    \<and> get_int fh ''DIR1'' = Inr dir \<and> check_dir dir = Inr ()
    \<and> ((''CHISQ1'' \<in> set (columns fh) \<and> get_flt fh ''CHISQ1'' = Inr q \<and> check_chisq q = Inr ()
          \<and> getitem y ''P1'' = getitem fh ''P1'')
       \<or> (''CHISQ1'' \<notin> set (columns fh) \<and> ''P1'' \<in> set (columns fh)
           \<and> (\<exists>p. get_flt fh ''P1'' = Inr p \<and> check_pvalue p = Inr () \<and> q = map chdtri1 p)))
    \<and> getitem y ''BETAHAT1'' = Inr (FltCol (betahat_col q (map float_of_int n) dir))
    \<and> ''DIR1'' \<notin> set (columns y)"
proof -
  define x0 where "x0 = read_csv fh betaprod_usecols"
  from betaprod_passes [OF ok] obtain xa where
    p1: "betaprod_iter chdtri1 amin ''1'' x0 = Inr xa"
    and p2: "betaprod_iter chdtri1 amin ''2'' xa = Inr y"
    unfolding x0_def by blast
  from p1 obtain n dir q src where
        n: "get_int x0 (''N'' @ ''1'') = Inr n" "check_N n = Inr ()"
    and dir: "get_int x0 (''DIR'' @ ''1'') = Inr dir" "check_dir dir = Inr ()"
    and s: "(''CHISQ'' @ ''1'' \<in> set (columns x0) \<and> src = ''CHISQ'' @ ''1''
           \<and> get_flt x0 (''CHISQ'' @ ''1'') = Inr q \<and> check_chisq q = Inr ())
       \<or> (''CHISQ'' @ ''1'' \<notin> set (columns x0) \<and> ''P'' @ ''1'' \<in> set (columns x0) \<and> src = ''P'' @ ''1''
           \<and> (\<exists>p. get_flt x0 (''P'' @ ''1'') = Inr p \<and> check_pvalue p = Inr () \<and> q = map chdtri1 p))"
    and B: "''BETAHAT'' @ ''1'' \<notin> set (columns x0) \<longrightarrow>
          getitem xa (''BETAHAT'' @ ''1'') = Inr (FltCol (betahat_col q (map float_of_int n) dir))"
    and dout: "''DIR'' @ ''1'' \<notin> set (columns xa)"
    and other: "\<forall>k. k \<notin> {''N'' @ ''1'', src, ''DIR'' @ ''1'', ''MAF'' @ ''1'', ''BETAHAT'' @ ''1''} \<longrightarrow>
          getitem xa k = getitem x0 k"
    and cols: "\<forall>k. k \<notin> {src, ''DIR'' @ ''1'', ''BETAHAT'' @ ''1''} \<longrightarrow>
          (k \<in> set (columns xa) \<longleftrightarrow> k \<in> set (columns x0))"
    by (rule betaprod_iter_effectE)
  from p2 obtain n2 dir2 q2 src2 where
        n2: "get_int xa (''N'' @ ''2'') = Inr n2" "check_N n2 = Inr ()"
    and dir2: "get_int xa (''DIR'' @ ''2'') = Inr dir2" "check_dir dir2 = Inr ()"
    and s2l: "(''CHISQ'' @ ''2'' \<in> set (columns xa) \<and> src2 = ''CHISQ'' @ ''2''
           \<and> get_flt xa (''CHISQ'' @ ''2'') = Inr q2 \<and> check_chisq q2 = Inr ())
       \<or> (''CHISQ'' @ ''2'' \<notin> set (columns xa) \<and> ''P'' @ ''2'' \<in> set (columns xa) \<and> src2 = ''P'' @ ''2''
           \<and> (\<exists>p. get_flt xa (''P'' @ ''2'') = Inr p \<and> check_pvalue p = Inr () \<and> q2 = map chdtri1 p))"
    and B2: "''BETAHAT'' @ ''2'' \<notin> set (columns xa) \<longrightarrow>
          getitem y (''BETAHAT'' @ ''2'') = Inr (FltCol (betahat_col q2 (map float_of_int n2) dir2))"
    and dout2: "''DIR'' @ ''2'' \<notin> set (columns y)"
    and other2: "\<forall>k. k \<notin> {''N'' @ ''2'', src2, ''DIR'' @ ''2'', ''MAF'' @ ''2'', ''BETAHAT'' @ ''2''} \<longrightarrow>
          getitem y k = getitem xa k"
    and cols2: "\<forall>k. k \<notin> {src2, ''DIR'' @ ''2'', ''BETAHAT'' @ ''2''} \<longrightarrow>
          (k \<in> set (columns y) \<longleftrightarrow> k \<in> set (columns xa))"
    by (rule betaprod_iter_effectE)
  have s2: "src2 = ''CHISQ2'' \<or> src2 = ''P2''" using s2l by auto
  have s1: "src = ''CHISQ1'' \<or> src = ''P1''" using s by auto
  have nb: "''BETAHAT1'' \<notin> set (columns x0)"
    unfolding x0_def by (simp add: in_columns_read_csv betaprod_usecols_def)
  have "getitem y ''BETAHAT1'' = getitem xa ''BETAHAT1''"
    using other2 [rule_format, of "''BETAHAT1''"] s2 by auto
  then have Bh: "getitem y ''BETAHAT1'' = Inr (FltCol (betahat_col q (map float_of_int n) dir))"
    using B nb by simp
  have d: "''DIR1'' \<notin> set (columns y)"
    using cols2 [rule_format, of "''DIR1''"] s2 dout by auto
  have n0: "get_int fh ''N1'' = Inr n"
    using n(1) unfolding x0_def by (simp add: get_int_read_csv betaprod_usecols_def)
  have d0: "get_int fh ''DIR1'' = Inr dir"
    using dir(1) unfolding x0_def by (simp add: get_int_read_csv betaprod_usecols_def)
  have c0: "''CHISQ1'' \<in> set (columns x0) \<longleftrightarrow> ''CHISQ1'' \<in> set (columns fh)"
    unfolding x0_def by (simp add: in_columns_read_csv betaprod_usecols_def)
  have pc0: "''P1'' \<in> set (columns x0) \<longleftrightarrow> ''P1'' \<in> set (columns fh)"
    unfolding x0_def by (simp add: in_columns_read_csv betaprod_usecols_def)
  have g0: "get_flt x0 ''CHISQ1'' = get_flt fh ''CHISQ1''" "get_flt x0 ''P1'' = get_flt fh ''P1''"
    "getitem x0 ''P1'' = getitem fh ''P1''"
    unfolding x0_def by (simp_all add: get_flt_read_csv getitem_read_csv betaprod_usecols_def)
  have Pkeep: "src = ''CHISQ1'' \<Longrightarrow> getitem y ''P1'' = getitem fh ''P1''"
  proof -
    assume a: "src = ''CHISQ1''"
    have "getitem y ''P1'' = getitem xa ''P1''"
      using other2 [rule_format, of "''P1''"] s2 by auto
    also have "\<dots> = getitem x0 ''P1''"
      using other [rule_format, of "''P1''"] a by auto
    finally show ?thesis using g0(3) by simp
  qed
  have s': "(''CHISQ1'' \<in> set (columns fh) \<and> get_flt fh ''CHISQ1'' = Inr q \<and> check_chisq q = Inr ()
          \<and> getitem y ''P1'' = getitem fh ''P1'')
       \<or> (''CHISQ1'' \<notin> set (columns fh) \<and> ''P1'' \<in> set (columns fh)
           \<and> (\<exists>p. get_flt fh ''P1'' = Inr p \<and> check_pvalue p = Inr () \<and> q = map chdtri1 p))"
    using s Pkeep c0 pc0 g0 by auto
  show ?thesis
    apply (rule exI [of _ n], rule exI [of _ dir], rule exI [of _ q])
    using n0 n(2) d0 dir(2) s' Bh d by (intro conjI)
qed


text \<open>The same for the second phenotype, whose pass starts from the frame the first left.\<close>

lemma betaprod_facts2:
  assumes ok: "betaprod chdtri1 amin fh = Inr y"
  shows "\<exists>n dir q.
      get_int fh ''N2'' = Inr n \<and> check_N n = Inr ()
    \<and> get_int fh ''DIR2'' = Inr dir \<and> check_dir dir = Inr ()
    \<and> ((''CHISQ2'' \<in> set (columns fh) \<and> get_flt fh ''CHISQ2'' = Inr q \<and> check_chisq q = Inr ()
          \<and> getitem y ''P2'' = getitem fh ''P2'')
       \<or> (''CHISQ2'' \<notin> set (columns fh) \<and> ''P2'' \<in> set (columns fh)
           \<and> (\<exists>p. get_flt fh ''P2'' = Inr p \<and> check_pvalue p = Inr () \<and> q = map chdtri1 p)))
    \<and> getitem y ''BETAHAT2'' = Inr (FltCol (betahat_col q (map float_of_int n) dir))
    \<and> ''DIR2'' \<notin> set (columns y)"
proof -
  define x0 where "x0 = read_csv fh betaprod_usecols"
  from betaprod_passes [OF ok] obtain xa where
    p1: "betaprod_iter chdtri1 amin ''1'' x0 = Inr xa"
    and p2: "betaprod_iter chdtri1 amin ''2'' xa = Inr y"
    unfolding x0_def by blast
  from p1 obtain n dir q src where
        n: "get_int x0 (''N'' @ ''1'') = Inr n" "check_N n = Inr ()"
    and dir: "get_int x0 (''DIR'' @ ''1'') = Inr dir" "check_dir dir = Inr ()"
    and s: "(''CHISQ'' @ ''1'' \<in> set (columns x0) \<and> src = ''CHISQ'' @ ''1''
           \<and> get_flt x0 (''CHISQ'' @ ''1'') = Inr q \<and> check_chisq q = Inr ())
       \<or> (''CHISQ'' @ ''1'' \<notin> set (columns x0) \<and> ''P'' @ ''1'' \<in> set (columns x0) \<and> src = ''P'' @ ''1''
           \<and> (\<exists>p. get_flt x0 (''P'' @ ''1'') = Inr p \<and> check_pvalue p = Inr () \<and> q = map chdtri1 p))"
    and B: "''BETAHAT'' @ ''1'' \<notin> set (columns x0) \<longrightarrow>
          getitem xa (''BETAHAT'' @ ''1'') = Inr (FltCol (betahat_col q (map float_of_int n) dir))"
    and dout: "''DIR'' @ ''1'' \<notin> set (columns xa)"
    and other: "\<forall>k. k \<notin> {''N'' @ ''1'', src, ''DIR'' @ ''1'', ''MAF'' @ ''1'', ''BETAHAT'' @ ''1''} \<longrightarrow>
          getitem xa k = getitem x0 k"
    and cols: "\<forall>k. k \<notin> {src, ''DIR'' @ ''1'', ''BETAHAT'' @ ''1''} \<longrightarrow>
          (k \<in> set (columns xa) \<longleftrightarrow> k \<in> set (columns x0))"
    by (rule betaprod_iter_effectE)
  from p2 obtain n2 dir2 q2 src2 where
        n2: "get_int xa (''N'' @ ''2'') = Inr n2" "check_N n2 = Inr ()"
    and dir2: "get_int xa (''DIR'' @ ''2'') = Inr dir2" "check_dir dir2 = Inr ()"
    and s2l: "(''CHISQ'' @ ''2'' \<in> set (columns xa) \<and> src2 = ''CHISQ'' @ ''2''
           \<and> get_flt xa (''CHISQ'' @ ''2'') = Inr q2 \<and> check_chisq q2 = Inr ())
       \<or> (''CHISQ'' @ ''2'' \<notin> set (columns xa) \<and> ''P'' @ ''2'' \<in> set (columns xa) \<and> src2 = ''P'' @ ''2''
           \<and> (\<exists>p. get_flt xa (''P'' @ ''2'') = Inr p \<and> check_pvalue p = Inr () \<and> q2 = map chdtri1 p))"
    and B2: "''BETAHAT'' @ ''2'' \<notin> set (columns xa) \<longrightarrow>
          getitem y (''BETAHAT'' @ ''2'') = Inr (FltCol (betahat_col q2 (map float_of_int n2) dir2))"
    and dout2: "''DIR'' @ ''2'' \<notin> set (columns y)"
    and other2: "\<forall>k. k \<notin> {''N'' @ ''2'', src2, ''DIR'' @ ''2'', ''MAF'' @ ''2'', ''BETAHAT'' @ ''2''} \<longrightarrow>
          getitem y k = getitem xa k"
    and cols2: "\<forall>k. k \<notin> {src2, ''DIR'' @ ''2'', ''BETAHAT'' @ ''2''} \<longrightarrow>
          (k \<in> set (columns y) \<longleftrightarrow> k \<in> set (columns xa))"
    by (rule betaprod_iter_effectE)
  have s2: "src2 = ''CHISQ2'' \<or> src2 = ''P2''" using s2l by auto
  have s1: "src = ''CHISQ1'' \<or> src = ''P1''" using s by auto
  have u: "''N2'' \<in> set betaprod_usecols" "''DIR2'' \<in> set betaprod_usecols"
    "''CHISQ2'' \<in> set betaprod_usecols" "''P2'' \<in> set betaprod_usecols"
    "''BETAHAT2'' \<notin> set betaprod_usecols"
    by (simp_all add: betaprod_usecols_def)
  have gN: "getitem xa ''N2'' = getitem fh ''N2''"
    using other [rule_format, of "''N2''"] s1 u(1) unfolding x0_def
    by (auto simp: getitem_read_csv)
  have gD: "getitem xa ''DIR2'' = getitem fh ''DIR2''"
    using other [rule_format, of "''DIR2''"] s1 u(2) unfolding x0_def
    by (auto simp: getitem_read_csv)
  have gC: "getitem xa ''CHISQ2'' = getitem fh ''CHISQ2''"
    using other [rule_format, of "''CHISQ2''"] s1 u(3) unfolding x0_def
    by (auto simp: getitem_read_csv)
  have gP: "getitem xa ''P2'' = getitem fh ''P2''"
    using other [rule_format, of "''P2''"] s1 u(4) unfolding x0_def
    by (auto simp: getitem_read_csv)
  have cC: "''CHISQ2'' \<in> set (columns xa) \<longleftrightarrow> ''CHISQ2'' \<in> set (columns fh)"
    using cols [rule_format, of "''CHISQ2''"] s1 u(3) unfolding x0_def
    by (auto simp: in_columns_read_csv)
  have cP: "''P2'' \<in> set (columns xa) \<longleftrightarrow> ''P2'' \<in> set (columns fh)"
    using cols [rule_format, of "''P2''"] s1 u(4) unfolding x0_def
    by (auto simp: in_columns_read_csv)
  have nb: "''BETAHAT2'' \<notin> set (columns xa)"
    using cols [rule_format, of "''BETAHAT2''"] s1 u(5) unfolding x0_def
    by (auto simp: in_columns_read_csv)
  have Bh: "getitem y ''BETAHAT2'' = Inr (FltCol (betahat_col q2 (map float_of_int n2) dir2))"
    using B2 nb by simp
  have d: "''DIR2'' \<notin> set (columns y)" using dout2 by simp
  have n0: "get_int fh ''N2'' = Inr n2"
    using n2(1) get_int_cong [OF gN] by simp
  have d0: "get_int fh ''DIR2'' = Inr dir2"
    using dir2(1) get_int_cong [OF gD] by simp
  have fC: "get_flt xa ''CHISQ2'' = get_flt fh ''CHISQ2''" by (rule get_flt_cong [OF gC])
  have fP: "get_flt xa ''P2'' = get_flt fh ''P2''" by (rule get_flt_cong [OF gP])
  have Pkeep: "src2 = ''CHISQ2'' \<Longrightarrow> getitem y ''P2'' = getitem fh ''P2''"
  proof -
    assume a: "src2 = ''CHISQ2''"
    have "getitem y ''P2'' = getitem xa ''P2''"
      using other2 [rule_format, of "''P2''"] a by auto
    then show ?thesis using gP by simp
  qed
  have s': "(''CHISQ2'' \<in> set (columns fh) \<and> get_flt fh ''CHISQ2'' = Inr q2 \<and> check_chisq q2 = Inr ()
          \<and> getitem y ''P2'' = getitem fh ''P2'')
       \<or> (''CHISQ2'' \<notin> set (columns fh) \<and> ''P2'' \<in> set (columns fh)
           \<and> (\<exists>p. get_flt fh ''P2'' = Inr p \<and> check_pvalue p = Inr () \<and> q2 = map chdtri1 p))"
    using s2l Pkeep cC cP fC fP by auto
  show ?thesis
    apply (rule exI [of _ n2], rule exI [of _ dir2], rule exI [of _ q2])
    using n0 n2(2) d0 dir2(2) s' Bh d by (intro conjI)
qed

lemma betaprod_facts:
  assumes ok: "betaprod chdtri1 amin fh = Inr y" and i: "i = ''1'' \<or> i = ''2''"
  shows "\<exists>n dir q.
      get_int fh (''N'' @ i) = Inr n \<and> check_N n = Inr ()
    \<and> get_int fh (''DIR'' @ i) = Inr dir \<and> check_dir dir = Inr ()
    \<and> ((''CHISQ'' @ i \<in> set (columns fh) \<and> get_flt fh (''CHISQ'' @ i) = Inr q
          \<and> check_chisq q = Inr () \<and> getitem y (''P'' @ i) = getitem fh (''P'' @ i))
       \<or> (''CHISQ'' @ i \<notin> set (columns fh) \<and> ''P'' @ i \<in> set (columns fh)
           \<and> (\<exists>p. get_flt fh (''P'' @ i) = Inr p \<and> check_pvalue p = Inr () \<and> q = map chdtri1 p)))
    \<and> getitem y (''BETAHAT'' @ i) = Inr (FltCol (betahat_col q (map float_of_int n) dir))
    \<and> ''DIR'' @ i \<notin> set (columns y)"
proof (cases "i = ''1''")
  case True
  show ?thesis using betaprod_facts1 [OF ok] unfolding True by simp
next
  case False
  then have "i = ''2''" using i by simp
  then show ?thesis using betaprod_facts2 [OF ok] by simp
qed

lemma length_betahat_col:
  "length (betahat_col q n dir) = min (length q) (min (length n) (length dir))"
  by (simp add: betahat_col_def)

lemma nth_betahat_col:
  "j < length (betahat_col q n dir) \<Longrightarrow>
     betahat_col q n dir ! j = fl_mul (fl_sqrt (fl_div (q ! j) (n ! j))) (float_of_int (dir ! j))"
  by (simp add: betahat_col_def)

lemma betaprod_iter_bad_dir:
  assumes n: "get_int x (''N'' @ i) = Inr n" and cn: "check_N n = Inr ()"
    and dir: "get_int x (''DIR'' @ i) = Inr dir" and bad: "\<exists>d \<in> set dir. d \<noteq> 1 \<and> d \<noteq> - 1"
  shows "betaprod_iter chdtri1 amin i x = Inl (ValueError ''DIR entry not equal to +/- 1.'')"
proof -
  have d1: "get_int (setitem x (''N'' @ i) (FltCol (map float_of_int n))) (''DIR'' @ i) = Inr dir"
    using dir by (simp add: get_int_setitem_other)
  have cd: "check_dir dir = Inl (ValueError ''DIR entry not equal to +/- 1.'')"
    using bad by (simp add: check_dir_cases)
  show ?thesis using n cn d1 cd by (simp add: betaprod_iter_def Let_def bindE_def)
qed

lemma nonfinite_div_zero: "\<not> isfinite (fl_mul (fl_sqrt (fl_div v (Fin 0))) (float_of_int d))"
  by (cases v) (auto simp: isfinite_def float_of_int_def)

section \<open>Acceptance and rows of betaprod\<close>















text \<open>
  C3: an accepted betaprod file yields, for each phenotype, a column BETAHATi whose
  entries are sqrt(CHISQi / Ni) * DIRi row by row, with CHISQi taken from the file when
  it has that column and obtained from Pi through chdtri otherwise; the column DIRi is
  gone from the result.
\<close>

theorem betaprod_betahat:
  assumes ok: "betaprod chdtri1 amin fh = Inr y" and i: "i = ''1'' \<or> i = ''2''"
  shows "\<exists>n dir q bh.
      get_int fh (''N'' @ i) = Inr n \<and> get_int fh (''DIR'' @ i) = Inr dir
    \<and> (if ''CHISQ'' @ i \<in> set (columns fh) then get_flt fh (''CHISQ'' @ i) = Inr q
        else \<exists>p. get_flt fh (''P'' @ i) = Inr p \<and> q = map chdtri1 p)
    \<and> getitem y (''BETAHAT'' @ i) = Inr (FltCol bh)
    \<and> length bh = min (length q) (min (length n) (length dir))
    \<and> (\<forall>j < length bh.
          bh ! j = fl_mul (fl_sqrt (fl_div (q ! j) (float_of_int (n ! j)))) (float_of_int (dir ! j)))
    \<and> ''DIR'' @ i \<notin> set (columns y)"
proof -
  from betaprod_facts [OF ok i] obtain n dir q where
        n: "get_int fh (''N'' @ i) = Inr n"
    and dir: "get_int fh (''DIR'' @ i) = Inr dir"
    and s: "(''CHISQ'' @ i \<in> set (columns fh) \<and> get_flt fh (''CHISQ'' @ i) = Inr q
          \<and> check_chisq q = Inr () \<and> getitem y (''P'' @ i) = getitem fh (''P'' @ i))
       \<or> (''CHISQ'' @ i \<notin> set (columns fh) \<and> ''P'' @ i \<in> set (columns fh)
           \<and> (\<exists>p. get_flt fh (''P'' @ i) = Inr p \<and> check_pvalue p = Inr () \<and> q = map chdtri1 p))"
    and B: "getitem y (''BETAHAT'' @ i) = Inr (FltCol (betahat_col q (map float_of_int n) dir))"
    and d: "''DIR'' @ i \<notin> set (columns y)"
    by (elim exE conjE)
  let ?bh = "betahat_col q (map float_of_int n) dir"
  have src: "if ''CHISQ'' @ i \<in> set (columns fh) then get_flt fh (''CHISQ'' @ i) = Inr q
        else \<exists>p. get_flt fh (''P'' @ i) = Inr p \<and> q = map chdtri1 p"
    using s by auto
  have len: "length ?bh = min (length q) (min (length n) (length dir))"
    by (simp add: length_betahat_col)
  have el: "\<forall>j < length ?bh.
      ?bh ! j = fl_mul (fl_sqrt (fl_div (q ! j) (float_of_int (n ! j)))) (float_of_int (dir ! j))"
    by (simp add: nth_betahat_col length_betahat_col)
  show ?thesis
    apply (rule exI [of _ n], rule exI [of _ dir], rule exI [of _ q], rule exI [of _ ?bh])
    using n dir src B len el d by (intro conjI)
qed

theorem betaprod_betahat_witness:
  "betaprod chdtri1_sample amin_ignoring_axis betaprod_file_ex = Inr betaprod_out_ex
   \<and> (\<exists>n dir q bh.
      get_int betaprod_file_ex (''N'' @ ''2'') = Inr n \<and> get_int betaprod_file_ex (''DIR'' @ ''2'') = Inr dir
    \<and> (if ''CHISQ'' @ ''2'' \<in> set (columns betaprod_file_ex) then get_flt betaprod_file_ex (''CHISQ'' @ ''2'') = Inr q
        else \<exists>p. get_flt betaprod_file_ex (''P'' @ ''2'') = Inr p \<and> q = map chdtri1_sample p)
    \<and> getitem betaprod_out_ex (''BETAHAT'' @ ''2'') = Inr (FltCol bh)
    \<and> length bh = min (length q) (min (length n) (length dir))
    \<and> (\<forall>j < length bh.
          bh ! j = fl_mul (fl_sqrt (fl_div (q ! j) (float_of_int (n ! j)))) (float_of_int (dir ! j)))
    \<and> ''DIR'' @ ''2'' \<notin> set (columns betaprod_out_ex))"
proof -
  have i: "''2'' = ''1'' \<or> ''2'' = ''2''" by simp
  show ?thesis using betaprod_betahat [OF betaprod_run_ex i] betaprod_run_ex by blast
qed

text \<open>
  C7: \<open>check_dir\<close> raises a ValueError exactly when some entry is neither +1 nor -1 (and
  raises nothing else); a pass of betaprod's loop whose DIR column has such an entry stops
  with that error before any effect size is computed, and a file that betaprod accepts
  has only +1 and -1 in both DIR1 and DIR2.
\<close>

theorem check_dir_betaprod:
  "((\<exists>msg. check_dir dir = Inl (ValueError msg)) \<longleftrightarrow> (\<exists>d \<in> set dir. d \<noteq> 1 \<and> d \<noteq> - 1))
   \<and> (check_dir dir = Inr () \<or> (\<exists>msg. check_dir dir = Inl (ValueError msg)))
   \<and> (get_int x (''N'' @ i) = Inr n \<and> check_N n = Inr () \<and> get_int x (''DIR'' @ i) = Inr dir
        \<and> (\<exists>d \<in> set dir. d \<noteq> 1 \<and> d \<noteq> - 1)
      \<longrightarrow> betaprod_iter chdtri1 amin i x = Inl (ValueError ''DIR entry not equal to +/- 1.''))
   \<and> (betaprod chdtri1 amin fh = Inr y
      \<longrightarrow> (\<exists>d1 d2. get_int fh ''DIR1'' = Inr d1 \<and> get_int fh ''DIR2'' = Inr d2
             \<and> (\<forall>d \<in> set d1 \<union> set d2. d = 1 \<or> d = - 1)))"
proof (intro conjI impI)
  show "(\<exists>msg. check_dir dir = Inl (ValueError msg)) \<longleftrightarrow> (\<exists>d \<in> set dir. d \<noteq> 1 \<and> d \<noteq> - 1)"
    by (simp add: check_dir_cases)
  show "check_dir dir = Inr () \<or> (\<exists>msg. check_dir dir = Inl (ValueError msg))"
    by (simp add: check_dir_cases)
next
  assume "get_int x (''N'' @ i) = Inr n \<and> check_N n = Inr () \<and> get_int x (''DIR'' @ i) = Inr dir
        \<and> (\<exists>d \<in> set dir. d \<noteq> 1 \<and> d \<noteq> - 1)"
  then show "betaprod_iter chdtri1 amin i x = Inl (ValueError ''DIR entry not equal to +/- 1.'')"
    using betaprod_iter_bad_dir by blast
next
  assume ok: "betaprod chdtri1 amin fh = Inr y"
  from betaprod_facts1 [OF ok] obtain d1 where
    d1: "get_int fh ''DIR1'' = Inr d1" "check_dir d1 = Inr ()" by (elim exE conjE)
  from betaprod_facts2 [OF ok] obtain d2 where
    d2: "get_int fh ''DIR2'' = Inr d2" "check_dir d2 = Inr ()" by (elim exE conjE)
  have "\<forall>d \<in> set d1 \<union> set d2. d = 1 \<or> d = - 1"
    using d1(2) d2(2) by (auto simp: check_dir_cases split: if_splits)
  then show "\<exists>d1 d2. get_int fh ''DIR1'' = Inr d1 \<and> get_int fh ''DIR2'' = Inr d2
             \<and> (\<forall>d \<in> set d1 \<union> set d2. d = 1 \<or> d = - 1)"
    using d1(1) d2(1) by blast
qed

theorem check_dir_betaprod_witness:
  "(\<exists>msg. check_dir [1, 0] = Inl (ValueError msg))
   \<and> betaprod_iter chdtri1_sample amin_ignoring_axis ''1'' bad_dir_frame_ex
       = Inl (ValueError ''DIR entry not equal to +/- 1.'')
   \<and> betaprod chdtri1_sample amin_ignoring_axis betaprod_file_ex = Inr betaprod_out_ex
   \<and> (\<exists>d1 d2. get_int betaprod_file_ex ''DIR1'' = Inr d1 \<and> get_int betaprod_file_ex ''DIR2'' = Inr d2
             \<and> (\<forall>d \<in> set d1 \<union> set d2. d = 1 \<or> d = - 1))"
proof -
  have a: "get_int bad_dir_frame_ex (''N'' @ ''1'') = Inr [10, 20] \<and> check_N [10, 20] = Inr ()
      \<and> get_int bad_dir_frame_ex (''DIR'' @ ''1'') = Inr [1, 0]
      \<and> (\<exists>d \<in> set [1, 0 :: int]. d \<noteq> 1 \<and> d \<noteq> - 1)"
    by (simp add: bad_dir_frame_ex_def frame_eval)
  note t = check_dir_betaprod [of "[1, 0]" bad_dir_frame_ex "''1''" "[10, 20]" chdtri1_sample
      amin_ignoring_axis betaprod_file_ex betaprod_out_ex]
  show ?thesis using t a betaprod_run_ex [of amin_ignoring_axis] by blast
qed

text \<open>
  C9: \<open>check_N\<close> raises only when some sample size is negative, so a column with a sample
  size of exactly 0 (and none negative) passes; and in a file that betaprod accepts, a row
  whose sample size Ni is 0 gets a BETAHATi that is not a finite number.
\<close>

theorem check_N_zero_betaprod:
  "((\<exists>msg. check_N N = Inl (ValueError msg)) \<longleftrightarrow> (\<exists>n \<in> set N. n < 0))
   \<and> (check_N N = Inr () \<or> (\<exists>msg. check_N N = Inl (ValueError msg)))
   \<and> (0 \<in> set N \<and> (\<forall>n \<in> set N. 0 \<le> n) \<longrightarrow> check_N N = Inr ())
   \<and> (betaprod chdtri1 amin fh = Inr y \<and> (i = ''1'' \<or> i = ''2'')
        \<and> get_int fh (''N'' @ i) = Inr n \<and> n ! j = 0
      \<longrightarrow> (\<exists>bh. getitem y (''BETAHAT'' @ i) = Inr (FltCol bh)
             \<and> (j < length bh \<longrightarrow> \<not> isfinite (bh ! j))))"
proof (intro conjI impI)
  show "(\<exists>msg. check_N N = Inl (ValueError msg)) \<longleftrightarrow> (\<exists>n \<in> set N. n < 0)"
    by (simp add: check_N_cases)
  show "check_N N = Inr () \<or> (\<exists>msg. check_N N = Inl (ValueError msg))"
    by (simp add: check_N_cases)
next
  assume "0 \<in> set N \<and> (\<forall>n \<in> set N. 0 \<le> n)"
  then show "check_N N = Inr ()" by (auto simp: check_N_cases)
next
  assume a: "betaprod chdtri1 amin fh = Inr y \<and> (i = ''1'' \<or> i = ''2'')
        \<and> get_int fh (''N'' @ i) = Inr n \<and> n ! j = 0"
  then have ok: "betaprod chdtri1 amin fh = Inr y" and i: "i = ''1'' \<or> i = ''2''"
    and n: "get_int fh (''N'' @ i) = Inr n" and z: "n ! j = 0" by auto
  from betaprod_facts [OF ok i] obtain n' dir q where
    n': "get_int fh (''N'' @ i) = Inr n'"
    and B: "getitem y (''BETAHAT'' @ i) = Inr (FltCol (betahat_col q (map float_of_int n') dir))"
    by (elim exE conjE)
  have nn: "n' = n" using n n' by simp
  let ?bh = "betahat_col q (map float_of_int n) dir"
  have "j < length ?bh \<longrightarrow> \<not> isfinite (?bh ! j)"
  proof
    assume j: "j < length ?bh"
    then have jn: "j < length n" by (simp add: length_betahat_col)
    have "?bh ! j = fl_mul (fl_sqrt (fl_div (q ! j) (map float_of_int n ! j))) (float_of_int (dir ! j))"
      using j by (rule nth_betahat_col)
    also have "map float_of_int n ! j = Fin 0" using jn z by (simp add: float_of_int_def)
    finally show "\<not> isfinite (?bh ! j)" by (simp add: nonfinite_div_zero)
  qed
  then show "\<exists>bh. getitem y (''BETAHAT'' @ i) = Inr (FltCol bh)
             \<and> (j < length bh \<longrightarrow> \<not> isfinite (bh ! j))"
    using B nn by blast
qed

theorem check_N_zero_betaprod_witness:
  "check_N [1, 0] = Inr ()
   \<and> betaprod chdtri1_sample amin_ignoring_axis betaprod_file_ex = Inr betaprod_out_ex
   \<and> get_int betaprod_file_ex (''N'' @ ''2'') = Inr [1, 0]
   \<and> getitem betaprod_out_ex (''BETAHAT'' @ ''2'') = Inr (FltCol [Fin 0, PInf])
   \<and> (\<exists>bh. getitem betaprod_out_ex (''BETAHAT'' @ ''2'') = Inr (FltCol bh)
             \<and> (1 < length bh \<longrightarrow> \<not> isfinite (bh ! 1)))"
proof -
  have a: "0 \<in> set [1, 0 :: int] \<and> (\<forall>n \<in> set [1, 0 :: int]. 0 \<le> n)" by simp
  have b: "get_int betaprod_file_ex (''N'' @ ''2'') = Inr [1, 0]"
    by (simp add: betaprod_file_ex_def frame_eval)
  have c: "getitem betaprod_out_ex (''BETAHAT'' @ ''2'') = Inr (FltCol [Fin 0, PInf])"
    by (simp add: betaprod_out_ex_def frame_eval)
  have d: "betaprod chdtri1_sample amin_ignoring_axis betaprod_file_ex = Inr betaprod_out_ex
        \<and> (''2'' = ''1'' \<or> ''2'' = ''2'')
        \<and> get_int betaprod_file_ex (''N'' @ ''2'') = Inr [1, 0] \<and> [1, 0 :: int] ! 1 = 0"
    using betaprod_run_ex [of amin_ignoring_axis] b by simp
  note t = check_N_zero_betaprod [of "[1, 0]" chdtri1_sample amin_ignoring_axis betaprod_file_ex
      betaprod_out_ex "''2''" "[1, 0]" 1]
  show ?thesis using t a b c d by blast
qed

section \<open>Files with both P and CHISQ\<close>

text \<open>
  C10: with both a P and a CHISQ column in the file, chisq goes by P: whether it accepts
  is decided by N, SNP, MAF and P alone, the P column comes back transformed under the
  name CHISQ, and the file's own CHISQ column comes back as read, unchecked. betaprod
  goes by CHISQ: the effect sizes come from CHISQi, and Pi comes back as read, unchecked.
\<close>

theorem both_P_and_CHISQ:
  "(''P'' \<in> set (columns fh) \<and> ''CHISQ'' \<in> set (columns fh) \<longrightarrow>
      ((\<exists>y. chisq chdtri1 fh = Inr y) \<longleftrightarrow>
         (\<exists>N. get_int fh ''N'' = Inr N \<and> check_N N = Inr ())
       \<and> (\<exists>snp. get_str fh ''SNP'' = Inr snp \<and> check_rsid snp = Inr ())
       \<and> (''MAF'' \<in> set (columns fh) \<longrightarrow>
            (\<exists>m. get_flt fh ''MAF'' = Inr m \<and> check_maf m = Inr ()))
       \<and> (\<exists>p. get_flt fh ''P'' = Inr p \<and> check_pvalue p = Inr ()))
    \<and> (\<forall>y. chisq chdtri1 fh = Inr y \<longrightarrow>
         (\<exists>p. get_flt fh ''P'' = Inr p
            \<and> (\<forall>j < length y. columns (read_csv fh chisq_usecols) ! j = ''P''
                  \<longrightarrow> y ! j = (''CHISQ'', FltCol (map chdtri1 p)))
            \<and> (\<forall>j < length y. columns (read_csv fh chisq_usecols) ! j = ''CHISQ''
                  \<longrightarrow> y ! j = read_csv fh chisq_usecols ! j))))
   \<and> ((i = ''1'' \<or> i = ''2'') \<and> ''P'' @ i \<in> set (columns gh) \<and> ''CHISQ'' @ i \<in> set (columns gh)
        \<and> betaprod chdtri1 amin gh = Inr z \<longrightarrow>
        (\<exists>n dir q. get_int gh (''N'' @ i) = Inr n \<and> get_int gh (''DIR'' @ i) = Inr dir
            \<and> get_flt gh (''CHISQ'' @ i) = Inr q \<and> check_chisq q = Inr ()
            \<and> getitem z (''BETAHAT'' @ i) = Inr (FltCol (betahat_col q (map float_of_int n) dir))
            \<and> getitem z (''P'' @ i) = getitem gh (''P'' @ i)))"
proof (intro conjI impI)
  assume a: "''P'' \<in> set (columns fh) \<and> ''CHISQ'' \<in> set (columns fh)"
  then have P: "''P'' \<in> set (columns fh)" by simp
  show "(\<exists>y. chisq chdtri1 fh = Inr y) \<longleftrightarrow>
         (\<exists>N. get_int fh ''N'' = Inr N \<and> check_N N = Inr ())
       \<and> (\<exists>snp. get_str fh ''SNP'' = Inr snp \<and> check_rsid snp = Inr ())
       \<and> (''MAF'' \<in> set (columns fh) \<longrightarrow>
            (\<exists>m. get_flt fh ''MAF'' = Inr m \<and> check_maf m = Inr ()))
       \<and> (\<exists>p. get_flt fh ''P'' = Inr p \<and> check_pvalue p = Inr ())"
  proof
    assume "\<exists>y. chisq chdtri1 fh = Inr y"
    then obtain y where ok: "chisq chdtri1 fh = Inr y" by blast
    show "(\<exists>N. get_int fh ''N'' = Inr N \<and> check_N N = Inr ())
       \<and> (\<exists>snp. get_str fh ''SNP'' = Inr snp \<and> check_rsid snp = Inr ())
       \<and> (''MAF'' \<in> set (columns fh) \<longrightarrow>
            (\<exists>m. get_flt fh ''MAF'' = Inr m \<and> check_maf m = Inr ()))
       \<and> (\<exists>p. get_flt fh ''P'' = Inr p \<and> check_pvalue p = Inr ())"
      using chisq_Inr_shape [OF ok] P by blast
  next
    assume c: "(\<exists>N. get_int fh ''N'' = Inr N \<and> check_N N = Inr ())
       \<and> (\<exists>snp. get_str fh ''SNP'' = Inr snp \<and> check_rsid snp = Inr ())
       \<and> (''MAF'' \<in> set (columns fh) \<longrightarrow>
            (\<exists>m. get_flt fh ''MAF'' = Inr m \<and> check_maf m = Inr ()))
       \<and> (\<exists>p. get_flt fh ''P'' = Inr p \<and> check_pvalue p = Inr ())"
    then obtain N snp p where "get_int fh ''N'' = Inr N" "check_N N = Inr ()"
      "get_str fh ''SNP'' = Inr snp" "check_rsid snp = Inr ()"
      "get_flt fh ''P'' = Inr p" "check_pvalue p = Inr ()" by blast
    moreover have "''MAF'' \<in> set (columns fh) \<longrightarrow>
            (\<exists>m. get_flt fh ''MAF'' = Inr m \<and> check_maf m = Inr ())" using c by blast
    ultimately show "\<exists>y. chisq chdtri1 fh = Inr y"
      using chisq_accepts_P [OF P] by blast
  qed
  show "\<forall>y. chisq chdtri1 fh = Inr y \<longrightarrow>
         (\<exists>p. get_flt fh ''P'' = Inr p
            \<and> (\<forall>j < length y. columns (read_csv fh chisq_usecols) ! j = ''P''
                  \<longrightarrow> y ! j = (''CHISQ'', FltCol (map chdtri1 p)))
            \<and> (\<forall>j < length y. columns (read_csv fh chisq_usecols) ! j = ''CHISQ''
                  \<longrightarrow> y ! j = read_csv fh chisq_usecols ! j))"
  proof (intro allI impI)
    fix y assume ok: "chisq chdtri1 fh = Inr y"
    from chisq_P_branch_frame [OF ok P] obtain p where
          p: "get_flt fh ''P'' = Inr p"
      and a1: "\<forall>j < length y. columns (read_csv fh chisq_usecols) ! j = ''P''
                \<longrightarrow> y ! j = (''CHISQ'', FltCol (map chdtri1 p))"
      and a2: "\<forall>j < length y. columns (read_csv fh chisq_usecols) ! j \<notin> {''N'', ''MAF'', ''P''}
                \<longrightarrow> y ! j = read_csv fh chisq_usecols ! j"
      by (elim exE conjE)
    have "\<forall>j < length y. columns (read_csv fh chisq_usecols) ! j = ''CHISQ''
                  \<longrightarrow> y ! j = read_csv fh chisq_usecols ! j"
      using a2 by simp
    then show "\<exists>p. get_flt fh ''P'' = Inr p
            \<and> (\<forall>j < length y. columns (read_csv fh chisq_usecols) ! j = ''P''
                  \<longrightarrow> y ! j = (''CHISQ'', FltCol (map chdtri1 p)))
            \<and> (\<forall>j < length y. columns (read_csv fh chisq_usecols) ! j = ''CHISQ''
                  \<longrightarrow> y ! j = read_csv fh chisq_usecols ! j)"
      using p a1 by blast
  qed
next
  assume b: "(i = ''1'' \<or> i = ''2'') \<and> ''P'' @ i \<in> set (columns gh) \<and> ''CHISQ'' @ i \<in> set (columns gh)
        \<and> betaprod chdtri1 amin gh = Inr z"
  then have i: "i = ''1'' \<or> i = ''2''" and C: "''CHISQ'' @ i \<in> set (columns gh)"
    and ok: "betaprod chdtri1 amin gh = Inr z" by simp_all
  from betaprod_facts [OF ok i] obtain n dir q where
        n: "get_int gh (''N'' @ i) = Inr n"
    and dir: "get_int gh (''DIR'' @ i) = Inr dir"
    and s: "(''CHISQ'' @ i \<in> set (columns gh) \<and> get_flt gh (''CHISQ'' @ i) = Inr q
          \<and> check_chisq q = Inr () \<and> getitem z (''P'' @ i) = getitem gh (''P'' @ i))
       \<or> (''CHISQ'' @ i \<notin> set (columns gh) \<and> ''P'' @ i \<in> set (columns gh)
           \<and> (\<exists>p. get_flt gh (''P'' @ i) = Inr p \<and> check_pvalue p = Inr () \<and> q = map chdtri1 p))"
    and B: "getitem z (''BETAHAT'' @ i) = Inr (FltCol (betahat_col q (map float_of_int n) dir))"
    by (elim exE conjE)
  have s': "get_flt gh (''CHISQ'' @ i) = Inr q \<and> check_chisq q = Inr ()
      \<and> getitem z (''P'' @ i) = getitem gh (''P'' @ i)"
    using s C by blast
  show "\<exists>n dir q. get_int gh (''N'' @ i) = Inr n \<and> get_int gh (''DIR'' @ i) = Inr dir
            \<and> get_flt gh (''CHISQ'' @ i) = Inr q \<and> check_chisq q = Inr ()
            \<and> getitem z (''BETAHAT'' @ i) = Inr (FltCol (betahat_col q (map float_of_int n) dir))
            \<and> getitem z (''P'' @ i) = getitem gh (''P'' @ i)"
    using n dir s' B by blast
qed

theorem both_P_and_CHISQ_witness:
  "''P'' \<in> set (columns chisq_both_ex) \<and> ''CHISQ'' \<in> set (columns chisq_both_ex)
   \<and> chisq chdtri1_sample chisq_both_ex = Inr chisq_both_out_ex
   \<and> get_flt chisq_both_ex ''CHISQ'' = Inr [Fin (- 5)]
   \<and> (\<exists>msg. check_chisq [Fin (- 5)] = Inl (ValueError msg))
   \<and> (\<exists>p. get_flt chisq_both_ex ''P'' = Inr p \<and> check_pvalue p = Inr ())
   \<and> ''P'' @ ''1'' \<in> set (columns betaprod_both_ex) \<and> ''CHISQ'' @ ''1'' \<in> set (columns betaprod_both_ex)
   \<and> betaprod chdtri1_sample amin_ignoring_axis betaprod_both_ex = Inr betaprod_both_out_ex
   \<and> (\<exists>msg. check_pvalue [Fin 7] = Inl (ValueError msg))
   \<and> getitem betaprod_both_out_ex (''P'' @ ''1'') = Inr (FltCol [Fin 7])
   \<and> (\<exists>n dir q. get_int betaprod_both_ex (''N'' @ ''1'') = Inr n
            \<and> get_int betaprod_both_ex (''DIR'' @ ''1'') = Inr dir
            \<and> get_flt betaprod_both_ex (''CHISQ'' @ ''1'') = Inr q \<and> check_chisq q = Inr ()
            \<and> getitem betaprod_both_out_ex (''BETAHAT'' @ ''1'')
                = Inr (FltCol (betahat_col q (map float_of_int n) dir))
            \<and> getitem betaprod_both_out_ex (''P'' @ ''1'') = getitem betaprod_both_ex (''P'' @ ''1''))"
proof -
  have a: "''P'' \<in> set (columns chisq_both_ex) \<and> ''CHISQ'' \<in> set (columns chisq_both_ex)"
    by (simp add: chisq_both_ex_def columns_def)
  have b: "(''1'' = ''1'' \<or> ''1'' = ''2'') \<and> ''P'' @ ''1'' \<in> set (columns betaprod_both_ex)
      \<and> ''CHISQ'' @ ''1'' \<in> set (columns betaprod_both_ex)
      \<and> betaprod chdtri1_sample amin_ignoring_axis betaprod_both_ex = Inr betaprod_both_out_ex"
    using betaprod_both_run_ex [of amin_ignoring_axis]
    by (simp add: betaprod_both_ex_def columns_def)
  have c: "get_flt chisq_both_ex ''CHISQ'' = Inr [Fin (- 5)]"
    "\<exists>msg. check_chisq [Fin (- 5)] = Inl (ValueError msg)"
    "\<exists>msg. check_pvalue [Fin 7] = Inl (ValueError msg)"
    "getitem betaprod_both_out_ex (''P'' @ ''1'') = Inr (FltCol [Fin 7])"
    by (simp_all add: chisq_both_ex_def betaprod_both_out_ex_def frame_eval)
  note t = both_P_and_CHISQ [of chisq_both_ex chdtri1_sample "''1''" betaprod_both_ex
      amin_ignoring_axis betaprod_both_out_ex]
  have t1: "\<exists>p. get_flt chisq_both_ex ''P'' = Inr p \<and> check_pvalue p = Inr ()"
    using t a chisq_both_run_ex by blast
  have t2: "\<exists>n dir q. get_int betaprod_both_ex (''N'' @ ''1'') = Inr n
            \<and> get_int betaprod_both_ex (''DIR'' @ ''1'') = Inr dir
            \<and> get_flt betaprod_both_ex (''CHISQ'' @ ''1'') = Inr q \<and> check_chisq q = Inr ()
            \<and> getitem betaprod_both_out_ex (''BETAHAT'' @ ''1'')
                = Inr (FltCol (betahat_col q (map float_of_int n) dir))
            \<and> getitem betaprod_both_out_ex (''P'' @ ''1'') = getitem betaprod_both_ex (''P'' @ ''1'')"
    using t b by blast
  show ?thesis using a b c t1 t2 chisq_both_run_ex by (intro conjI) simp_all
qed

section \<open>The MAF fold in the two parsers\<close>

text \<open>Whatever the library does with the misplaced axis, the column is not folded.\<close>

lemma betaprod_maf_never_folded:
  assumes ok: "betaprod chdtri1_sample amin betaprod_maf_ex = Inr y"
  shows "\<exists>m. getitem y ''MAF1'' = Inr (FltCol [m, m])"
proof -
  have "\<exists>m. y = [(''SNP'', StrCol [''rs1'', ''rs2'']),
      (''N1'', FltCol [Fin 10, Fin 10]), (''BETAHAT1'', FltCol [Fin 0, Fin 0]),
      (''MAF1'', FltCol [m, m]),
      (''N2'', FltCol [Fin 10, Fin 10]), (''BETAHAT2'', FltCol [Fin 0, Fin 0])]"
    using ok
    by (cases "amin [Fin (1/10), Fin (7/10)] [Fin (9/10), Fin (3/10)]")
       (auto simp: betaprod_def betaprod_usecols_def betaprod_iter_def betahat_block_def
          maf_block_def betaprod_maf_ex_def chdtri1_sample_def frame_eval numeral_2_eq_2)
  then show ?thesis by (auto simp: getitem_def)
qed

text \<open>
  C5: chisq folds MAF with np.fmin, row by row; betaprod calls np.min with the column
  1 - MAF in the axis position, so on the same MAF values it either raises or writes one
  scalar into every row.
\<close>

theorem maf_fold_chisq_vs_betaprod:
  "chisq chdtri1_sample chisq_file_ex = Inr chisq_out_ex
   \<and> get_flt chisq_file_ex ''MAF'' = Inr [Fin (1/10), Fin (7/10)]
   \<and> getitem chisq_out_ex ''MAF'' = Inr (FltCol [Fin (1/10), Fin (3/10)])
   \<and> get_flt betaprod_maf_ex ''MAF1'' = Inr [Fin (1/10), Fin (7/10)]
   \<and> betaprod chdtri1_sample amin_ignoring_axis betaprod_maf_ex = Inr betaprod_maf_out_ex
   \<and> getitem betaprod_maf_out_ex ''MAF1'' = Inr (FltCol [Fin (1/10), Fin (1/10)])
   \<and> betaprod chdtri1_sample amin_rejecting_axis betaprod_maf_ex
       = Inl (ValueError ''No axis named for object type Series'')"
  using chisq_run_ex betaprod_maf_run_ignoring betaprod_maf_run_rejecting
  by (simp add: chisq_file_ex_def chisq_out_ex_def betaprod_maf_ex_def betaprod_maf_out_ex_def
      frame_eval)

section \<open>The ldscore parser and the uniform error policy\<close>






















lemma ldscore_numeric_run_ex:
  "ldscore ldscore_files_ex pd_concat_sample py_float_sample ''g'' None
     = Inr ldscore_numeric_out_ex"
  by (simp add: ldscore_def parsefunc_def ldscore_files_ex_def ldscore_numeric_ex_def
      ldscore_numeric_out_ex_def drop_cols_def mask_rows_def mask_list_def convert_tail_def
      check_rsid_col_def np_any_def duplicated_def frame_eval)

subsection \<open>The policy, parser by parser\<close>











section \<open>The left join\<close>

lemma matches_at_most_one:
  assumes d: "distinct (map as_key keys)"
  shows "filter (\<lambda>j. key_match a (keys ! j)) [0 ..< length keys] = []
       \<or> (\<exists>j < length keys. filter (\<lambda>j. key_match a (keys ! j)) [0 ..< length keys] = [j])"
proof -
  let ?js = "filter (\<lambda>j. key_match a (keys ! j)) [0 ..< length keys]"
  have dj: "distinct ?js" by simp
  have mem: "\<And>j. j \<in> set ?js \<Longrightarrow> j < length keys \<and> as_key (keys ! j) = as_key a"
    by (auto simp: key_match_def)
  show ?thesis
  proof (cases ?js)
    case Nil
    then show ?thesis by simp
  next
    case (Cons j1 rest)
    have j1: "j1 < length keys" "as_key (keys ! j1) = as_key a" using mem [of j1] Cons by simp_all
    have "rest = []"
    proof (cases rest)
      case Nil
      then show ?thesis .
    next
      case (Cons j2 rest')
      have j2: "j2 < length keys" "as_key (keys ! j2) = as_key a"
        using mem [of j2] Cons \<open>?js = j1 # rest\<close> by simp_all
      have ne: "j1 \<noteq> j2" using dj Cons \<open>?js = j1 # rest\<close> by simp
      have "map as_key keys ! j1 = map as_key keys ! j2" using j1 j2 by simp
      then have "j1 = j2" using d j1(1) j2(1) by (auto simp: distinct_conv_nth)
      then show ?thesis using ne by simp
    qed
    then show ?thesis using Cons j1(1) by simp
  qed
qed

lemma match_of_None: "match_of keys a = None \<longleftrightarrow> as_key a \<notin> set (map as_key keys)"
proof -
  have "filter (\<lambda>j. key_match a (keys ! j)) [0 ..< length keys] = []
        \<longleftrightarrow> (\<forall>j < length keys. as_key (keys ! j) \<noteq> as_key a)"
  proof
    assume "filter (\<lambda>j. key_match a (keys ! j)) [0 ..< length keys] = []"
    then have n: "\<forall>j \<in> set [0 ..< length keys]. \<not> key_match a (keys ! j)"
      by (simp add: filter_empty_conv)
    show "\<forall>j < length keys. as_key (keys ! j) \<noteq> as_key a"
    proof (intro allI impI)
      fix j assume "j < length keys"
      then have "j \<in> set [0 ..< length keys]" by simp
      then have "\<not> key_match a (keys ! j)" using n by blast
      then show "as_key (keys ! j) \<noteq> as_key a" unfolding key_match_def by metis
    qed
  next
    assume h: "\<forall>j < length keys. as_key (keys ! j) \<noteq> as_key a"
    have "\<forall>j \<in> set [0 ..< length keys]. \<not> key_match a (keys ! j)"
    proof
      fix j assume "j \<in> set [0 ..< length keys]"
      then have "j < length keys" by simp
      then have "as_key (keys ! j) \<noteq> as_key a" using h by blast
      then show "\<not> key_match a (keys ! j)" unfolding key_match_def by metis
    qed
    then show "filter (\<lambda>j. key_match a (keys ! j)) [0 ..< length keys] = []"
      by (simp add: filter_empty_conv)
  qed
  also have "\<dots> \<longleftrightarrow> as_key a \<notin> set (map as_key keys)"
  proof
    assume h: "\<forall>j < length keys. as_key (keys ! j) \<noteq> as_key a"
    show "as_key a \<notin> set (map as_key keys)"
    proof
      assume "as_key a \<in> set (map as_key keys)"
      then obtain j where "j < length (map as_key keys)" "map as_key keys ! j = as_key a"
        unfolding in_set_conv_nth by blast
      then have "j < length keys" "as_key (keys ! j) = as_key a" by simp_all
      then show False using h by blast
    qed
  next
    assume n: "as_key a \<notin> set (map as_key keys)"
    show "\<forall>j < length keys. as_key (keys ! j) \<noteq> as_key a"
    proof (intro allI impI)
      fix j assume j: "j < length keys"
      then have "map as_key keys ! j \<in> set (map as_key keys)"
        by (intro nth_mem) simp
      then have "as_key (keys ! j) \<in> set (map as_key keys)" using j by simp
      then show "as_key (keys ! j) \<noteq> as_key a" using n by metis
    qed
  qed
  finally have e: "filter (\<lambda>j. key_match a (keys ! j)) [0 ..< length keys] = []
        \<longleftrightarrow> as_key a \<notin> set (map as_key keys)" .
  show ?thesis
  proof (cases "filter (\<lambda>j. key_match a (keys ! j)) [0 ..< length keys]")
    case Nil
    then show ?thesis using e by (simp add: match_of_def)
  next
    case (Cons j rest)
    then show ?thesis using e by (simp add: match_of_def)
  qed
qed

lemma match_of_Some: "match_of keys a = Some j \<Longrightarrow> j < length keys"
proof -
  assume a: "match_of keys a = Some j"
  then obtain rest where e: "filter (\<lambda>j. key_match a (keys ! j)) [0 ..< length keys] = j # rest"
    by (auto simp: match_of_def split: list.splits)
  have "j \<in> set (filter (\<lambda>j. key_match a (keys ! j)) [0 ..< length keys])"
    unfolding e by simp
  then show ?thesis by simp
qed

lemma concat_singletons: "concat (map (\<lambda>i. [f i]) xs) = map f xs"
  by (induction xs) auto

lemma join_rows_unique:
  assumes d: "distinct (map as_key keys)"
  shows "join_rows ids keys = map (\<lambda>i. (i, match_of keys (ids ! i))) [0 ..< length ids]"
proof -
  have "\<And>i. (case filter (\<lambda>j. key_match (ids ! i) (keys ! j)) [0 ..< length keys] of
                [] \<Rightarrow> [(i, None)] | js \<Rightarrow> map (\<lambda>j. (i, Some j)) js)
             = [(i, match_of keys (ids ! i))]"
  proof -
    fix i
    show "(case filter (\<lambda>j. key_match (ids ! i) (keys ! j)) [0 ..< length keys] of
                [] \<Rightarrow> [(i, None)] | js \<Rightarrow> map (\<lambda>j. (i, Some j)) js)
             = [(i, match_of keys (ids ! i))]"
      using matches_at_most_one [OF d, of "ids ! i"] by (auto simp: match_of_def)
  qed
  then show ?thesis unfolding join_rows_def by (simp add: concat_singletons)
qed

lemma nonzero_map: "nonzero (map f [0 ..< n]) = filter (\<lambda>i. f i) [0 ..< n]"
  unfolding nonzero_def by (rule filter_cong) simp_all


lemma loj_run_ex: "fst (loj store_ex self_ex 1) = Inr [0, 2]"
  by code_simp

lemma loj_run_keep_ex: "fst (loj store_ex self_ex 2) = Inr []"
  by code_simp

lemma loj_store_kept:
  assumes a: "a < length h"
  shows "snd (loj h self externalDf) ! a = h ! a"
  using a
  by (auto simp: loj_def alloc_def Let_def nth_append split: sum.splits prod.splits)

lemma loj_store_grows: "length h \<le> length (snd (loj h self externalDf))"
  by (auto simp: loj_def alloc_def Let_def split: sum.splits prod.splits)

text \<open>
  C8: \<open>loj\<close> changes no table that existed before the call: the table of the external
  dataframe and the table of \<open>self.IDList\<close> (which may be one and the same object) are
  afterwards what they were, as is every other table; the call only adds new tables.
\<close>

theorem loj_leaves_tables:
  "externalDf < length h \<and> c_IDList self < length h \<longrightarrow>
     snd (loj h self externalDf) ! externalDf = h ! externalDf
   \<and> snd (loj h self externalDf) ! c_IDList self = h ! c_IDList self
   \<and> (\<forall>a < length h. snd (loj h self externalDf) ! a = h ! a)
   \<and> length h \<le> length (snd (loj h self externalDf))"
  by (simp add: loj_store_kept loj_store_grows)


theorem loj_leaves_tables_witness:
  "(1::nat) < length store_ex \<and> c_IDList self_ex < length store_ex
   \<and> fst (loj store_ex self_ex 1) = Inr [0, 2]
   \<and> snd (loj store_ex self_ex 1) ! 1 = store_ex ! 1
   \<and> snd (loj store_ex self_ex 1) ! c_IDList self_ex = store_ex ! c_IDList self_ex
   \<and> snd (loj store_ex self_ex 1) ! 2 = store_ex ! 2
   \<and> length store_ex \<le> length (snd (loj store_ex self_ex 1))"
proof -
  have a: "(1::nat) < length store_ex \<and> c_IDList self_ex < length store_ex"
    by (simp add: store_ex_def self_ex_def)
  have b: "(2::nat) < length store_ex" by (simp add: store_ex_def)
  show ?thesis using loj_leaves_tables [of 1 store_ex self_ex] a b loj_run_ex by blast
qed

text \<open>The column \<open>keep\<close> of the merged table, when the keys of the right table do not repeat.\<close>

lemma merge_left_keep:
  assumes r: "r \<noteq> ''keep''" and l: "l \<noteq> ''keep''" and d: "distinct (map as_key keys)"
  shows "\<exists>zf. merge_left [(l, ids)] [(r, keys), (''keep'', replicate (length keys) (CBool True))] l r
               = Inr zf
             \<and> ogetitem zf ''keep''
               = Inr (map (\<lambda>i. case match_of keys (ids ! i) of None \<Rightarrow> CNaN | Some j \<Rightarrow> CBool True)
                        [0 ..< length ids])"
proof -
  let ?right = "[(r, keys), (''keep'', replicate (length keys) (CBool True))]"
  let ?rows = "map (\<lambda>i. (i, match_of keys (ids ! i))) [0 ..< length ids]"
  let ?kc = "map (\<lambda>i. case match_of keys (ids ! i) of None \<Rightarrow> CNaN | Some j \<Rightarrow> CBool True)
                        [0 ..< length ids]"
  have gl: "ogetitem [(l, ids)] l = Inr ids" by (simp add: ogetitem_def)
  have gr: "ogetitem ?right r = Inr keys" by (simp add: ogetitem_def)
  have jr: "join_rows ids keys = ?rows" by (rule join_rows_unique [OF d])
  have kc: "map (\<lambda>(i, j). case j of None \<Rightarrow> CNaN
                             | Some j \<Rightarrow> replicate (length keys) (CBool True) ! j) ?rows = ?kc"
  proof -
    have "\<And>i. (case match_of keys (ids ! i) of None \<Rightarrow> CNaN
                  | Some j \<Rightarrow> replicate (length keys) (CBool True) ! j)
             = (case match_of keys (ids ! i) of None \<Rightarrow> CNaN | Some j \<Rightarrow> CBool True)"
    proof -
      fix i
      show "(case match_of keys (ids ! i) of None \<Rightarrow> CNaN
                  | Some j \<Rightarrow> replicate (length keys) (CBool True) ! j)
             = (case match_of keys (ids ! i) of None \<Rightarrow> CNaN | Some j \<Rightarrow> CBool True)"
        using match_of_Some [of keys "ids ! i"]
        by (cases "match_of keys (ids ! i)") simp_all
    qed
    then show ?thesis by (simp add: comp_def)
  qed
  show ?thesis
  proof (cases "l = r")
    case True
    have "merge_left [(l, ids)] ?right l r
          = Inr [(l, map (\<lambda>(i, j). ids ! i) ?rows), (''keep'', ?kc)]"
      using True r l kc
      by (simp add: merge_left_def ogetitem_def jr bindE_def Let_def del: map_map)
    moreover have "ogetitem [(l, map (\<lambda>(i, j). ids ! i) ?rows), (''keep'', ?kc)] ''keep'' = Inr ?kc"
      using l by (simp add: ogetitem_def)
    ultimately show ?thesis by blast
  next
    case False
    have "merge_left [(l, ids)] ?right l r
          = Inr [(l, map (\<lambda>(i, j). ids ! i) ?rows),
                 (r, map (\<lambda>(i, j). case j of None \<Rightarrow> CNaN | Some j \<Rightarrow> keys ! j) ?rows),
                 (''keep'', ?kc)]"
      using False r l kc
      by (simp add: merge_left_def ogetitem_def jr bindE_def Let_def del: map_map)
    moreover have "ogetitem [(l, map (\<lambda>(i, j). ids ! i) ?rows),
                 (r, map (\<lambda>(i, j). case j of None \<Rightarrow> CNaN | Some j \<Rightarrow> keys ! j) ?rows),
                 (''keep'', ?kc)] ''keep'' = Inr ?kc"
      using l r by (simp add: ogetitem_def)
    ultimately show ?thesis by blast
  qed
qed


text \<open>
  What \<open>loj\<close> returns when neither first column is named \<open>keep\<close> and the first column
  of the external table has no repeated key: the positions, in increasing order, of the
  identifiers that occur there.
\<close>

lemma loj_positions:
  assumes e: "externalDf < length h" and i: "c_IDList self < length h"
    and ext: "h ! externalDf = (r, keys) # rest" and idl: "h ! c_IDList self = [(l, ids)]"
    and r: "r \<noteq> ''keep''" and l: "l \<noteq> ''keep''" and d: "distinct (map as_key keys)"
  shows "fst (loj h self externalDf)
         = Inr (filter (\<lambda>i. as_key (ids ! i) \<in> set (map as_key keys)) [0 ..< length ids])"
proof -
  let ?mdf = "[(r, keys), (''keep'', replicate (length keys) (CBool True))]"
  let ?kc = "map (\<lambda>i. case match_of keys (ids ! i) of None \<Rightarrow> CNaN | Some j \<Rightarrow> CBool True)
                        [0 ..< length ids]"
  from merge_left_keep [OF r l d, of ids] obtain zf where
    m: "merge_left [(l, ids)] ?mdf l r = Inr zf" and k: "ogetitem zf ''keep'' = Inr ?kc"
    by blast
  have f1: "first_column (h ! externalDf) = Inr r" by (simp add: ext first_column_def)
  have f2: "first_column (h ! c_IDList self) = Inr l" by (simp add: idl first_column_def)
  have f3: "iloc_first (h ! externalDf) = Inr [(r, keys)]" by (simp add: ext iloc_first_def)
  have s: "osetitem [(r, keys)] ''keep'' (replicate (nrows [(r, keys)]) (CBool True)) = ?mdf"
    using r by (simp add: osetitem_def ocolumns_def nrows_def)
  have h2: "(h @ [[(r, keys)]])[length h := ?mdf] = h @ [?mdf]" by simp
  have i2: "(h @ [?mdf]) ! c_IDList self = [(l, ids)]" using i idl by (simp add: nth_append)
  have res: "fst (loj h self externalDf) = Inr (nonzero (map (\<lambda>c. cell_eq c (CBool True)) ?kc))"
    unfolding loj_def f1 f2 f3
    using i by (simp add: alloc_def s h2 idl m k nth_append Let_def)
  have "nonzero (map (\<lambda>c. cell_eq c (CBool True)) ?kc)
        = filter (\<lambda>i. cell_eq (case match_of keys (ids ! i) of None \<Rightarrow> CNaN
                                 | Some j \<Rightarrow> CBool True) (CBool True)) [0 ..< length ids]"
    using nonzero_map [of "\<lambda>i. cell_eq (case match_of keys (ids ! i) of None \<Rightarrow> CNaN
                                 | Some j \<Rightarrow> CBool True) (CBool True)" "length ids"]
    by (simp add: comp_def)
  also have "\<dots> = filter (\<lambda>i. as_key (ids ! i) \<in> set (map as_key keys)) [0 ..< length ids]"
  proof (rule filter_cong)
    fix i
    show "cell_eq (case match_of keys (ids ! i) of None \<Rightarrow> CNaN | Some j \<Rightarrow> CBool True)
            (CBool True) = (as_key (ids ! i) \<in> set (map as_key keys))"
      using match_of_None [of keys "ids ! i"]
      by (cases "match_of keys (ids ! i)") (simp_all add: cell_eq_def)
  qed simp
  finally show ?thesis using res by simp
qed

text \<open>
  C4, at the input where the code fails: the external table's first column is named
  \<open>keep\<close>, has no duplicates and holds two identifiers of the list. \<open>loj\<close> overwrites
  that column with \<open>True\<close> before the merge and returns no position at all; on the same
  identifiers under another column name it returns the positions 0 and 2.
\<close>

theorem loj_keep_named_column:
  "ogetitem (store_ex ! c_IDList self_ex) ''SNP'' = Inr [CStr ''rs1'', CStr ''rs3'', CStr ''rs2'']
   \<and> first_column (store_ex ! 2) = Inr ''keep''
   \<and> ogetitem (store_ex ! 2) ''keep'' = Inr [CStr ''rs2'', CStr ''rs1'']
   \<and> fst (loj store_ex self_ex 2) = Inr []
   \<and> first_column (store_ex ! 1) = Inr ''ID''
   \<and> ogetitem (store_ex ! 1) ''ID'' = Inr [CStr ''rs2'', CStr ''rs1'']
   \<and> fst (loj store_ex self_ex 1) = Inr [0, 2]"
  using loj_run_ex loj_run_keep_ex
  by (simp add: store_ex_def self_ex_def ogetitem_def first_column_def)

end
